theory Spec2Isabelle
  imports Complex_Main "HOL-Library.AList"
begin

section \<open>Python values\<close>

text \<open>
  The two source files are Python: \<^verbatim>\<open>crypto_shell.py\<close> (the interactive shell) and
  \<^verbatim>\<open>randobot.py\<close> (the random strategy). Exceptions are values of \<open>py_exn\<close>; a
  function that can raise returns \<open>py_exn + 'a\<close> with \<open>Inl\<close> for the exception.
  Every member of \<open>py_exn\<close> is a subclass of Python's \<^verbatim>\<open>Exception\<close>, so a handler
  \<^verbatim>\<open>except Exception\<close> catches all of them.
\<close>

datatype py_exn =
    TypeError | AttributeError | ValueError | ZeroDivisionError
  | FileNotFoundError | PermissionError | OSError | UnicodeDecodeError | JSONDecodeError
  | OtherException

subsection \<open>Floats\<close>

text \<open>
  A Python \<^verbatim>\<open>float\<close> is an IEEE 754 binary64 value. \<open>Finite s m\<close> is the finite
  value with sign bit \<open>s\<close> (\<open>True\<close> for negative) and magnitude \<open>m\<close>, so
  \<open>Finite True 0\<close> is \<^verbatim>\<open>-0.0\<close>; \<open>Infinity s\<close> is \<^verbatim>\<open>inf\<close> or \<^verbatim>\<open>-inf\<close>. The magnitude is
  kept as an exact rational; the arithmetic below rounds every result to the nearest
  binary64 value, ties to even, so the operations map binary64 values to binary64 values.
\<close>

datatype pyfloat = Finite bool rat | Infinity bool | NaN

definition pow2 :: "int \<Rightarrow> rat" where
  "pow2 k = (if 0 \<le> k then 2 ^ nat k else 1 / 2 ^ nat (- k))"

text \<open>\<open>ilog2 m\<close> is the integer \<open>e\<close> with \<open>2 ^ e \<le> m < 2 ^ (e + 1)\<close>, for \<open>0 < m\<close>.\<close>

function log2_up :: "rat \<Rightarrow> nat" where
  "log2_up m = (if 2 \<le> m then Suc (log2_up (m / 2)) else 0)"
  by pat_completeness auto
termination
proof (relation "measure (\<lambda>m. nat \<lfloor>m\<rfloor>)")
  show "wf (measure (\<lambda>m::rat. nat \<lfloor>m\<rfloor>))" by simp
next
  fix m :: rat
  assume h: "2 \<le> m"
  have "m / 2 \<le> m - 1" using h by simp
  then have "\<lfloor>m / 2\<rfloor> \<le> \<lfloor>m - 1\<rfloor>" by (rule floor_mono)
  moreover have "1 \<le> \<lfloor>m\<rfloor>" using h by linarith
  ultimately show "(m / 2, m) \<in> measure (\<lambda>m. nat \<lfloor>m\<rfloor>)" by simp
qed

function log2_down :: "rat \<Rightarrow> nat" where
  "log2_down m = (if 0 < m \<and> m < 1 then Suc (log2_down (2 * m)) else 0)"
  by pat_completeness auto
termination
proof (relation "measure (\<lambda>m. nat \<lceil>1 / m\<rceil>)")
  show "wf (measure (\<lambda>m::rat. nat \<lceil>1 / m\<rceil>))" by simp
next
  fix m :: rat
  assume h: "0 < m \<and> m < 1"
  define x where "x = 1 / m"
  have x: "1 < x" using h by (simp add: x_def)
  have c: "2 \<le> \<lceil>x\<rceil>" using x by linarith
  have u: "x \<le> of_int \<lceil>x\<rceil>" by (rule le_of_int_ceiling)
  have "x / 2 \<le> of_int (\<lceil>x\<rceil> - 1)"
  proof (cases "x \<le> 2")
    case True
    have "x / 2 \<le> 1" using True by linarith
    also have "(1::rat) \<le> of_int (\<lceil>x\<rceil> - 1)" using c by linarith
    finally show ?thesis .
  next
    case False
    then have "x / 2 \<le> x - 1" by linarith
    also have "\<dots> \<le> of_int \<lceil>x\<rceil> - 1" using u by linarith
    finally show ?thesis by simp
  qed
  then have "\<lceil>x / 2\<rceil> \<le> \<lceil>x\<rceil> - 1" by (simp only: ceiling_le_iff)
  then have l: "\<lceil>x / 2\<rceil> < \<lceil>x\<rceil>" by linarith
  have e: "1 / (2 * m) = x / 2" by (simp add: x_def)
  have "\<lceil>1 / (2 * m)\<rceil> < \<lceil>1 / m\<rceil>"
    using l by (simp only: e x_def [symmetric])
  moreover have "0 < \<lceil>1 / m\<rceil>" using c by (simp only: x_def)
  ultimately show "(2 * m, m) \<in> measure (\<lambda>m. nat \<lceil>1 / m\<rceil>)" by simp
qed

declare log2_up.simps [simp del] log2_down.simps [simp del]

definition ilog2 :: "rat \<Rightarrow> int" where
  "ilog2 m = (if 1 \<le> m then int (log2_up m) else - int (log2_down m))"

definition round_half_even :: "rat \<Rightarrow> int" where
  "round_half_even x =
     (let f = \<lfloor>x\<rfloor>; d = x - of_int f
      in if d < 1 / 2 then f else if 1 / 2 < d then f + 1 else if even f then f else f + 1)"

text \<open>
  The nearest binary64 magnitude: 53 significant bits, and below \<open>2 ^ - 1022\<close> the
  subnormal spacing \<open>2 ^ - 1074\<close>. A result of \<open>2 ^ 1024\<close> or more is an overflow.
\<close>

definition round_mag :: "rat \<Rightarrow> rat" where
  "round_mag m =
     (if m = 0 then 0
      else let q = max (ilog2 m - 52) (- 1074)
           in of_int (round_half_even (m / pow2 q)) * pow2 q)"

definition fround :: "bool \<Rightarrow> rat \<Rightarrow> pyfloat" where
  "fround s m = (let r = round_mag m in if pow2 1024 \<le> r then Infinity s else Finite s r)"

definition fval :: "bool \<Rightarrow> rat \<Rightarrow> rat" where
  "fval s m = (if s then - m else m)"

text \<open>Python's \<^verbatim>\<open><\<close> and \<^verbatim>\<open><=\<close> on floats: every comparison with a NaN is false.\<close>

fun py_lt :: "pyfloat \<Rightarrow> pyfloat \<Rightarrow> bool" where
  "py_lt NaN b = False"
| "py_lt a NaN = False"
| "py_lt (Infinity s) (Infinity t) = (s \<and> \<not> t)"
| "py_lt (Infinity s) (Finite t y) = s"
| "py_lt (Finite s x) (Infinity t) = (\<not> t)"
| "py_lt (Finite s x) (Finite t y) = (fval s x < fval t y)"

fun py_le :: "pyfloat \<Rightarrow> pyfloat \<Rightarrow> bool" where
  "py_le NaN b = False"
| "py_le a NaN = False"
| "py_le (Infinity s) (Infinity t) = (s \<or> \<not> t)"
| "py_le (Infinity s) (Finite t y) = s"
| "py_le (Finite s x) (Infinity t) = (\<not> t)"
| "py_le (Finite s x) (Finite t y) = (fval s x \<le> fval t y)"

definition py_gt :: "pyfloat \<Rightarrow> pyfloat \<Rightarrow> bool" where
  "py_gt a b = py_lt b a"

text \<open>The integer literals \<^verbatim>\<open>0\<close> and \<^verbatim>\<open>1\<close> of the source, as the floats they compare equal to.\<close>

definition fzero :: pyfloat where
  "fzero = Finite False 0"

definition fone :: pyfloat where
  "fone = Finite False 1"

fun is_zero :: "pyfloat \<Rightarrow> bool" where
  "is_zero (Finite s m) = (m = 0)"
| "is_zero (Infinity s) = False"
| "is_zero NaN = False"

text \<open>Python's \<^verbatim>\<open>*\<close> on floats never raises: overflow gives an infinity.\<close>

fun fmul :: "pyfloat \<Rightarrow> pyfloat \<Rightarrow> pyfloat" where
  "fmul NaN b = NaN"
| "fmul a NaN = NaN"
| "fmul (Infinity s) (Infinity t) = Infinity (s \<noteq> t)"
| "fmul (Infinity s) (Finite t y) = (if y = 0 then NaN else Infinity (s \<noteq> t))"
| "fmul (Finite s x) (Infinity t) = (if x = 0 then NaN else Infinity (s \<noteq> t))"
| "fmul (Finite s x) (Finite t y) = fround (s \<noteq> t) (x * y)"

fun ieee_div :: "pyfloat \<Rightarrow> pyfloat \<Rightarrow> pyfloat" where
  "ieee_div NaN b = NaN"
| "ieee_div a NaN = NaN"
| "ieee_div (Infinity s) (Infinity t) = NaN"
| "ieee_div (Infinity s) (Finite t y) = Infinity (s \<noteq> t)"
| "ieee_div (Finite s x) (Infinity t) = Finite (s \<noteq> t) 0"
| "ieee_div (Finite s x) (Finite t y) =
     (if y = 0 then (if x = 0 then NaN else Infinity (s \<noteq> t)) else fround (s \<noteq> t) (x / y))"

text \<open>
  Python's \<^verbatim>\<open>/\<close> on floats raises \<^verbatim>\<open>ZeroDivisionError\<close> when the divisor is \<^verbatim>\<open>0.0\<close> or
  \<^verbatim>\<open>-0.0\<close>, and is the IEEE quotient otherwise.
\<close>

definition fdiv :: "pyfloat \<Rightarrow> pyfloat \<Rightarrow> py_exn + pyfloat" where
  "fdiv a b = (if is_zero b then Inl ZeroDivisionError else Inr (ieee_div a b))"

section \<open>The random strategy (randobot.py)\<close>

text \<open>
  \<open>trader\<close> holds the attributes that \<^verbatim>\<open>initialize\<close> sets on the strategy object and the
  iteration reads (\<^verbatim>\<open>set_market\<close> and \<^verbatim>\<open>sleeptime\<close> only configure the framework). The
  remembered side \<^verbatim>\<open>last_trade\<close> is \<^verbatim>\<open>None\<close>, \<^verbatim>\<open>"buy"\<close> or \<^verbatim>\<open>"sell"\<close>. Cash and prices are
  floats, as \<^verbatim>\<open>cash_at_risk\<close> is.
\<close>

datatype side = Buy | Sell

record trader =
  last_trade :: "side option"
  cash_at_risk :: pyfloat
  coin :: string
  quote :: string

definition initialize :: "pyfloat \<Rightarrow> string \<Rightarrow> string \<Rightarrow> trader" where
  "initialize car c q = \<lparr>last_trade = None, cash_at_risk = car, coin = c, quote = q\<rparr>"

text \<open>The arguments the source passes to \<^verbatim>\<open>create_order\<close>: asset, quantity, side, type, quote.\<close>

record order =
  order_asset :: string
  order_quantity :: pyfloat
  order_side :: side
  order_type :: string
  order_quote :: string

text \<open>
  What one iteration does to the outside, in order: the calls into the trading framework
  (\<^verbatim>\<open>sell_all\<close>, \<^verbatim>\<open>create_order\<close>, \<^verbatim>\<open>submit_order\<close>) and the two console prints. The
  framework's answers to the queries \<^verbatim>\<open>get_cash()\<close> and \<^verbatim>\<open>get_last_price(...)\<close> and the draw
  \<^verbatim>\<open>random.choice([0, 1, 2])\<close> are inputs of the iteration.
\<close>

datatype event =
    Print_warning string string
  | Sell_all
  | Create_order order
  | Print_order order
  | Submit_order order

text \<open>
  \<^verbatim>\<open>position_sizing\<close>: the integer \<^verbatim>\<open>0\<close> assigned when the price is missing is \<open>fzero\<close>.
\<close>

definition position_sizing ::
  "trader \<Rightarrow> pyfloat \<Rightarrow> pyfloat option
     \<Rightarrow> py_exn + ((pyfloat \<times> pyfloat option \<times> pyfloat) \<times> event list)" where
  "position_sizing tr cash last_price =
     (case last_price of
        None \<Rightarrow> Inr ((cash, None, fzero), [Print_warning (coin tr) (quote tr)])
      | Some p \<Rightarrow>
          (case fdiv (fmul cash (cash_at_risk tr)) p of
             Inl e \<Rightarrow> Inl e
           | Inr quantity \<Rightarrow> Inr ((cash, Some p, quantity), [])))"

definition make_order :: "trader \<Rightarrow> pyfloat \<Rightarrow> side \<Rightarrow> order" where
  "make_order tr quantity sd =
     \<lparr>order_asset = coin tr, order_quantity = quantity, order_side = sd,
      order_type = ''market'', order_quote = quote tr\<rparr>"

text \<open>The body of the \<^verbatim>\<open>if choice == ...\<close> chain, once a choice has been drawn.\<close>

definition decide :: "trader \<Rightarrow> pyfloat \<Rightarrow> nat \<Rightarrow> trader \<times> event list" where
  "decide tr quantity choice =
     (if choice = 0 then (tr, [])
      else if choice = 1 then
        (tr\<lparr>last_trade := Some Buy\<rparr>,
         (if last_trade tr = Some Sell then [Sell_all] else []) @
         [Create_order (make_order tr quantity Buy), Print_order (make_order tr quantity Buy),
          Submit_order (make_order tr quantity Buy)])
      else if choice = 2 then
        (tr\<lparr>last_trade := Some Sell\<rparr>,
         (if last_trade tr = Some Buy then [Sell_all] else []) @
         [Create_order (make_order tr quantity Sell), Print_order (make_order tr quantity Sell),
          Submit_order (make_order tr quantity Sell)])
      else (tr, []))"

text \<open>The two guards of \<^verbatim>\<open>on_trading_iteration\<close> under which a choice is drawn.\<close>

definition draws :: "pyfloat \<Rightarrow> pyfloat option \<Rightarrow> pyfloat \<Rightarrow> bool" where
  "draws cash last_price quantity =
     (case last_price of
        None \<Rightarrow> False
      | Some p \<Rightarrow> py_gt quantity fzero \<and> py_gt cash (fmul quantity p))"

definition on_trading_iteration ::
  "trader \<Rightarrow> pyfloat \<Rightarrow> pyfloat option \<Rightarrow> nat \<Rightarrow> py_exn + (trader \<times> event list)" where
  "on_trading_iteration tr cash0 price0 choice =
     (case position_sizing tr cash0 price0 of
        Inl e \<Rightarrow> Inl e
      | Inr ((cash, last_price, quantity), out) \<Rightarrow>
          (if draws cash last_price quantity
           then (case decide tr quantity choice of (tr', evs) \<Rightarrow> Inr (tr', out @ evs))
           else Inr (tr, out)))"

definition created :: "event list \<Rightarrow> bool" where
  "created evs = (\<exists>ev \<in> set evs. case ev of Create_order ord \<Rightarrow> True | _ \<Rightarrow> False)"

definition submitted :: "event list \<Rightarrow> bool" where
  "submitted evs = (\<exists>ev \<in> set evs. case ev of Submit_order ord \<Rightarrow> True | _ \<Rightarrow> False)"

text \<open>
  The two roundings of \<^verbatim>\<open>cash * self.cash_at_risk / last_price\<close> are exact: the product
  and the quotient are binary64 values as they stand.
\<close>

fun exact_sizing :: "pyfloat \<Rightarrow> pyfloat \<Rightarrow> pyfloat \<Rightarrow> bool" where
  "exact_sizing (Finite s c) (Finite t r) (Finite u x) =
     (x \<noteq> 0 \<and> fround (s \<noteq> t) (c * r) = Finite (s \<noteq> t) (c * r) \<and>
      fround ((s \<noteq> t) \<noteq> u) (c * r / x) = Finite ((s \<noteq> t) \<noteq> u) (c * r / x))"
| "exact_sizing a b c = False"


section \<open>Strings and the built-ins the shell calls\<close>

text \<open>
  A Python \<^verbatim>\<open>str\<close> is modelled as a \<open>string\<close> whose characters are the code points 0 to
  255, each \<open>char\<close> standing for the code point of its number. The built-ins below are
  Python's on such strings.
\<close>

definition code :: "char \<Rightarrow> nat" where
  "code c = of_char c"

text \<open>\<^verbatim>\<open>str.split()\<close> with no argument: the maximal runs of characters that are not whitespace.\<close>

definition is_space :: "char \<Rightarrow> bool" where
  "is_space c =
     ((9 \<le> code c \<and> code c \<le> 13) \<or> (28 \<le> code c \<and> code c \<le> 32) \<or> code c = 133 \<or> code c = 160)"

fun split_from :: "string \<Rightarrow> string \<Rightarrow> string list" where
  "split_from cur [] = (if cur = [] then [] else [rev cur])"
| "split_from cur (c # cs) =
     (if is_space c then (if cur = [] then split_from [] cs else rev cur # split_from [] cs)
      else split_from (c # cur) cs)"

definition py_split :: "string \<Rightarrow> string list" where
  "py_split s = split_from [] s"

text \<open>\<^verbatim>\<open>str.lower()\<close>: the capital letters below code point 256 are A to Z and U+00C0 to
  U+00DE without the multiplication sign U+00D7; each is 32 below its small letter.\<close>

definition lower_char :: "char \<Rightarrow> char" where
  "lower_char c =
     (if (65 \<le> code c \<and> code c \<le> 90) \<or> (192 \<le> code c \<and> code c \<le> 222 \<and> code c \<noteq> 215)
      then char_of (code c + 32) else c)"

definition py_lower :: "string \<Rightarrow> string" where
  "py_lower s = map lower_char s"

definition py_endswith :: "string \<Rightarrow> string \<Rightarrow> bool" where
  "py_endswith s suf = (length suf \<le> length s \<and> drop (length s - length suf) s = suf)"

text \<open>\<^verbatim>\<open>sub in s\<close> on two strings.\<close>

fun py_substring :: "string \<Rightarrow> string \<Rightarrow> bool" where
  "py_substring sub [] = (sub = [])"
| "py_substring sub (c # cs) = (take (length sub) (c # cs) = sub \<or> py_substring sub cs)"

text \<open>\<^verbatim>\<open>os.path.join\<close> of two components, on a POSIX system.\<close>

definition os_path_join :: "string \<Rightarrow> string \<Rightarrow> string" where
  "os_path_join a b =
     (if take 1 b = ''/'' then b
      else if a = [] \<or> py_endswith a ''/'' then a @ b
      else a @ ''/'' @ b)"

subsection \<open>\<^verbatim>\<open>float(s)\<close>\<close>

text \<open>
  \<^verbatim>\<open>float\<close> on a string without whitespace, which is what \<^verbatim>\<open>split()\<close> hands to the shell
  (the stripping of surrounding whitespace that \<^verbatim>\<open>float\<close> does first is left out). The
  grammar: an optional sign, then \<^verbatim>\<open>inf\<close>, \<^verbatim>\<open>infinity\<close> or \<^verbatim>\<open>nan\<close> in any case, or decimal
  digits with an optional point and an optional exponent; single underscores may stand
  between digits. The decimal value is rounded to the nearest binary64 value. \<open>None\<close> is
  \<^verbatim>\<open>ValueError\<close>.
\<close>

definition is_digit :: "char \<Rightarrow> bool" where
  "is_digit c = (48 \<le> code c \<and> code c \<le> 57)"

definition digit_val :: "char \<Rightarrow> nat" where
  "digit_val c = code c - 48"

definition digits_val :: "string \<Rightarrow> nat" where
  "digits_val ds = foldl (\<lambda>a c. 10 * a + digit_val c) 0 ds"

text \<open>An underscore must follow a digit and precede a digit; the underscores are dropped.\<close>

fun strip_underscores :: "char option \<Rightarrow> string \<Rightarrow> string option" where
  "strip_underscores prev [] = (if prev = Some CHR ''_'' then None else Some [])"
| "strip_underscores prev (c # cs) =
     (if c = CHR ''_'' then
        (case prev of
           None \<Rightarrow> None
         | Some p \<Rightarrow> if is_digit p then strip_underscores (Some c) cs else None)
      else if prev = Some CHR ''_'' \<and> \<not> is_digit c then None
      else map_option ((#) c) (strip_underscores (Some c) cs))"

definition pow10 :: "int \<Rightarrow> rat" where
  "pow10 k = (if 0 \<le> k then 10 ^ nat k else 1 / 10 ^ nat (- k))"

definition split_sign :: "string \<Rightarrow> bool \<times> string" where
  "split_sign s =
     (case s of
        [] \<Rightarrow> (False, [])
      | c # cs \<Rightarrow> if c = CHR ''-'' then (True, cs) else if c = CHR ''+'' then (False, cs)
                  else (False, s))"

text \<open>The exponent part: nothing, or \<^verbatim>\<open>e\<close> or \<^verbatim>\<open>E\<close>, an optional sign and at least one digit.\<close>

definition parse_exponent :: "string \<Rightarrow> int option" where
  "parse_exponent s =
     (case s of
        [] \<Rightarrow> Some 0
      | c # cs \<Rightarrow>
          if c = CHR ''e'' \<or> c = CHR ''E'' then
            (case split_sign cs of
               (neg, ds) \<Rightarrow>
                 if ds \<noteq> [] \<and> list_all is_digit ds
                 then Some (if neg then - int (digits_val ds) else int (digits_val ds))
                 else None)
          else None)"

definition parse_number :: "bool \<Rightarrow> string \<Rightarrow> pyfloat option" where
  "parse_number neg s =
     (let ip = takeWhile is_digit s; r1 = dropWhile is_digit s;
          fp = (if take 1 r1 = ''.'' then takeWhile is_digit (drop 1 r1) else []);
          r2 = (if take 1 r1 = ''.'' then dropWhile is_digit (drop 1 r1) else r1)
      in if ip = [] \<and> fp = [] then None
         else (case parse_exponent r2 of
                 None \<Rightarrow> None
               | Some ex \<Rightarrow>
                   Some (fround neg (of_nat (digits_val (ip @ fp)) * pow10 (ex - int (length fp))))))"

definition py_float :: "string \<Rightarrow> pyfloat option" where
  "py_float s =
     (case strip_underscores None s of
        None \<Rightarrow> None
      | Some t \<Rightarrow>
          (case split_sign t of
             (neg, r) \<Rightarrow>
               if py_lower r = ''inf'' \<or> py_lower r = ''infinity'' then Some (Infinity neg)
               else if py_lower r = ''nan'' then Some NaN
               else parse_number neg r))"

subsection \<open>\<^verbatim>\<open>datetime.strptime(s, '%Y-%m-%d')\<close>\<close>

text \<open>
  \<^verbatim>\<open>strptime\<close> matches the string against the regular expression of the format,
  \<^verbatim>\<open>(\d\d\d\d)-(1[0-2]|0[1-9]|[1-9])-(3[0-1]|[1-2]\d|0[1-9]|[1-9]| [1-9])\<close>, takes the first
  match, raises \<^verbatim>\<open>ValueError\<close> when text remains after it, and then builds the date, which
  raises \<^verbatim>\<open>ValueError\<close> for year 0 and for a day the month does not have. \<open>None\<close> is
  \<^verbatim>\<open>ValueError\<close>. The alternatives are tried in the order of the expression.
\<close>

definition in_range :: "char \<Rightarrow> char \<Rightarrow> char \<Rightarrow> bool" where
  "in_range lo hi c = (code lo \<le> code c \<and> code c \<le> code hi)"

definition match_month :: "string \<Rightarrow> (nat \<times> string) list" where
  "match_month s =
     (case s of
        a # b # r \<Rightarrow>
          (if a = CHR ''1'' \<and> in_range CHR ''0'' CHR ''2'' b then [(10 + digit_val b, r)] else []) @
          (if a = CHR ''0'' \<and> in_range CHR ''1'' CHR ''9'' b then [(digit_val b, r)] else []) @
          (if in_range CHR ''1'' CHR ''9'' a then [(digit_val a, b # r)] else [])
      | [a] \<Rightarrow> (if in_range CHR ''1'' CHR ''9'' a then [(digit_val a, [])] else [])
      | [] \<Rightarrow> [])"

definition match_day :: "string \<Rightarrow> (nat \<times> string) list" where
  "match_day s =
     (case s of
        a # b # r \<Rightarrow>
          (if a = CHR ''3'' \<and> in_range CHR ''0'' CHR ''1'' b then [(30 + digit_val b, r)] else []) @
          (if in_range CHR ''1'' CHR ''2'' a \<and> is_digit b
           then [(10 * digit_val a + digit_val b, r)] else []) @
          (if a = CHR ''0'' \<and> in_range CHR ''1'' CHR ''9'' b then [(digit_val b, r)] else []) @
          (if in_range CHR ''1'' CHR ''9'' a then [(digit_val a, b # r)] else []) @
          (if a = CHR '' '' \<and> in_range CHR ''1'' CHR ''9'' b then [(digit_val b, r)] else [])
      | [a] \<Rightarrow> (if in_range CHR ''1'' CHR ''9'' a then [(digit_val a, [])] else [])
      | [] \<Rightarrow> [])"

text \<open>The first match of the whole expression: year, month, day and the text left over.\<close>

definition match_ymd :: "string \<Rightarrow> (nat \<times> nat \<times> nat \<times> string) option" where
  "match_ymd s =
     (if 5 \<le> length s \<and> list_all is_digit (take 4 s) \<and> s ! 4 = CHR ''-'' then
        (case [(m, d, r). (m, r1) \<leftarrow> match_month (drop 5 s), take 1 r1 = ''-'',
                          (d, r) \<leftarrow> take 1 (match_day (drop 1 r1))] of
           [] \<Rightarrow> None
         | (m, d, r) # rest \<Rightarrow> Some (digits_val (take 4 s), m, d, r))
      else None)"

definition leap_year :: "nat \<Rightarrow> bool" where
  "leap_year y = (y mod 4 = 0 \<and> (0 < y mod 100 \<or> y mod 400 = 0))"

definition days_in_month :: "nat \<Rightarrow> nat \<Rightarrow> nat" where
  "days_in_month y m =
     (if m = 2 then (if leap_year y then 29 else 28)
      else if m = 4 \<or> m = 6 \<or> m = 9 \<or> m = 11 then 30 else 31)"

definition strptime_ymd :: "string \<Rightarrow> (nat \<times> nat \<times> nat) option" where
  "strptime_ymd s =
     (case match_ymd s of
        None \<Rightarrow> None
      | Some (y, m, d, r) \<Rightarrow>
          if r \<noteq> [] then None
          else if 1 \<le> y \<and> 1 \<le> d \<and> d \<le> days_in_month y m then Some (y, m, d)
          else None)"

section \<open>The shell (crypto_shell.py)\<close>

subsection \<open>Values of the configuration\<close>

text \<open>
  \<^verbatim>\<open>self.config\<close> starts as a dict of strings and one float; \<^verbatim>\<open>load_config\<close> assigns
  whatever \<^verbatim>\<open>json.load\<close> returns, which can be any JSON value. A dict keeps its
  insertion order, so it is an association list; its keys are strings, as JSON's are.
\<close>

datatype pyval =
    PNone | PBool bool | PInt int | PFloat pyfloat | PStr string
  | PList "pyval list" | PDict "(string \<times> pyval) list"

definition default_config :: pyval where
  "default_config =
     PDict [(''exchange'', PStr ''coinbase''), (''strategy'', PStr ''random''),
            (''coin'', PStr ''BTC''), (''quote'', PStr ''USD''),
            (''cash_at_risk'', PFloat (Finite False (1 / 4))),
            (''start_date'', PStr ''2023-06-01''), (''end_date'', PStr ''2023-12-31''),
            (''min_timestep'', PStr ''day'')]"

definition available_exchanges :: "string list" where
  "available_exchanges = [''coinbase'', ''kraken'', ''binance'', ''bitfinex'']"

definition available_strategies :: "string list" where
  "available_strategies = [''random'', ''sma_crossover'', ''rsi_strategy'', ''sentiment_based'']"

text \<open>\<^verbatim>\<open>name in config\<close>, \<^verbatim>\<open>config[name] = v\<close>, \<^verbatim>\<open>config.keys()\<close> and \<^verbatim>\<open>config.items()\<close> on
  whatever value the configuration is.\<close>

fun py_contains :: "pyval \<Rightarrow> string \<Rightarrow> py_exn + bool" where
  "py_contains (PDict kvs) k = Inr (k \<in> fst ` set kvs)"
| "py_contains (PList xs) k = Inr (PStr k \<in> set xs)"
| "py_contains (PStr s) k = Inr (py_substring k s)"
| "py_contains v k = Inl TypeError"

fun py_setitem :: "pyval \<Rightarrow> string \<Rightarrow> pyval \<Rightarrow> py_exn + pyval" where
  "py_setitem (PDict kvs) k v = Inr (PDict (AList.update k v kvs))"
| "py_setitem c k v = Inl TypeError"

fun py_keys :: "pyval \<Rightarrow> py_exn + string list" where
  "py_keys (PDict kvs) = Inr (map fst kvs)"
| "py_keys c = Inl AttributeError"

fun py_items :: "pyval \<Rightarrow> py_exn + (string \<times> pyval) list" where
  "py_items (PDict kvs) = Inr kvs"
| "py_items c = Inl AttributeError"

subsection \<open>Printed lines\<close>

text \<open>
  Each \<^verbatim>\<open>print\<close> of the handlers is one message; the value a line formats is kept as the
  value. The lines printed in red are the errors.
\<close>

datatype msg =
    Err_missing_args | Usage_set_parameter
  | Err_unknown_exchange string | Hint_list_exchanges
  | Err_unknown_strategy string | Hint_list_strategies
  | Err_cash_range | Err_cash_not_float | Err_date_format
  | Ok_set string pyval
  | Err_unknown_param string | Available_params "string list"
  | Ok_saved string | Err_save
  | Ok_loaded string | Err_file_not_found string | Err_invalid_json string | Err_load py_exn
  | Config_header | Config_line string pyval

fun is_error :: "msg \<Rightarrow> bool" where
  "is_error Err_missing_args = True"
| "is_error (Err_unknown_exchange v) = True"
| "is_error (Err_unknown_strategy v) = True"
| "is_error Err_cash_range = True"
| "is_error Err_cash_not_float = True"
| "is_error Err_date_format = True"
| "is_error (Err_unknown_param k) = True"
| "is_error Err_save = True"
| "is_error (Err_file_not_found f) = True"
| "is_error (Err_invalid_json f) = True"
| "is_error (Err_load e) = True"
| "is_error m = False"

definition error_shown :: "msg list \<Rightarrow> bool" where
  "error_shown ms = (\<exists>m \<in> set ms. is_error m)"

subsection \<open>\<^verbatim>\<open>do_show_config\<close> and \<^verbatim>\<open>do_set_parameter\<close>\<close>

text \<open>
  A handler returns the lines it printed and either the exception that left it or the
  configuration afterwards.
\<close>

definition do_show_config :: "pyval \<Rightarrow> msg list \<times> (py_exn + pyval)" where
  "do_show_config config =
     (case py_items config of
        Inl e \<Rightarrow> ([Config_header], Inl e)
      | Inr kvs \<Rightarrow> (Config_header # map (\<lambda>(k, v). Config_line k v) kvs, Inr config))"

text \<open>The key and value of every \<open>Config_line\<close> printed.\<close>

fun shown :: "msg list \<Rightarrow> (string \<times> pyval) list" where
  "shown [] = []"
| "shown (Config_line k v # ms) = (k, v) # shown ms"
| "shown (m # ms) = shown ms"

text \<open>
  The validation chain of \<^verbatim>\<open>do_set_parameter\<close>: \<open>Inl\<close> holds the lines printed before the
  early \<^verbatim>\<open>return\<close>, \<open>Inr\<close> the value that goes on to the update (the float for
  \<^verbatim>\<open>cash_at_risk\<close>, the string itself otherwise).
\<close>

definition validate :: "string \<Rightarrow> string \<Rightarrow> msg list + pyval" where
  "validate param_name param_value =
     (if param_name = ''exchange'' then
        (if param_value \<in> set available_exchanges then Inr (PStr param_value)
         else Inl [Err_unknown_exchange param_value, Hint_list_exchanges])
      else if param_name = ''strategy'' then
        (if param_value \<in> set available_strategies then Inr (PStr param_value)
         else Inl [Err_unknown_strategy param_value, Hint_list_strategies])
      else if param_name = ''cash_at_risk'' then
        (case py_float param_value of
           None \<Rightarrow> Inl [Err_cash_not_float]
         | Some x \<Rightarrow> if py_le x fzero \<or> py_gt x fone then Inl [Err_cash_range] else Inr (PFloat x))
      else if param_name = ''start_date'' \<or> param_name = ''end_date'' then
        (case strptime_ymd param_value of
           None \<Rightarrow> Inl [Err_date_format]
         | Some date \<Rightarrow> Inr (PStr param_value))
      else Inr (PStr param_value))"

text \<open>The update after the validation: \<^verbatim>\<open>if param_name in self.config: ... else: ...\<close>.\<close>

definition update_config :: "pyval \<Rightarrow> string \<Rightarrow> pyval \<Rightarrow> msg list \<times> (py_exn + pyval)" where
  "update_config config param_name v =
     (case py_contains config param_name of
        Inl e \<Rightarrow> ([], Inl e)
      | Inr present \<Rightarrow>
          if present then
            (case py_setitem config param_name v of
               Inl e \<Rightarrow> ([], Inl e)
             | Inr config' \<Rightarrow> ([Ok_set param_name v], Inr config'))
          else
            (case py_keys config of
               Inl e \<Rightarrow> ([Err_unknown_param param_name], Inl e)
             | Inr ks \<Rightarrow> ([Err_unknown_param param_name, Available_params ks], Inr config)))"

definition do_set_parameter :: "string \<Rightarrow> pyval \<Rightarrow> msg list \<times> (py_exn + pyval)" where
  "do_set_parameter arg config =
     (let args = py_split arg in
      if length args < 2 then ([Err_missing_args, Usage_set_parameter], Inr config)
      else
        (case validate (py_lower (args ! 0)) (args ! 1) of
           Inl errs \<Rightarrow> (errs, Inr config)
         | Inr v \<Rightarrow> update_config config (py_lower (args ! 0)) v))"

subsection \<open>\<^verbatim>\<open>do_save_config\<close> and \<^verbatim>\<open>do_load_config\<close>\<close>

text \<open>
  The file system: the text of each file by path; the paths that \<^verbatim>\<open>open(path, 'w')\<close> refuses
  (a missing directory, a permission); and, by path, the exception that \<^verbatim>\<open>open(path, 'r')\<close> or
  the reading of the file raises, if any: a permission, a component of the path that is not
  a directory, a name that is too long or holds a NUL, bytes that are not UTF-8. A path
  with no such exception and no file raises \<^verbatim>\<open>FileNotFoundError\<close>. \<^verbatim>\<open>json.dump\<close> and
  \<^verbatim>\<open>json.load\<close> are parameters \<open>dumps\<close> and \<open>loads\<close> of the two handlers: the text written
  for a value, and the value or the exception for a text.
\<close>

record world =
  files :: "string \<Rightarrow> string option"
  write_denied :: "string \<Rightarrow> bool"
  read_error :: "string \<Rightarrow> py_exn option"

definition config_filename :: "string \<Rightarrow> string" where
  "config_filename arg =
     (if arg = [] then ''crypto_config.json''
      else if py_endswith arg ''.json'' then arg else arg @ ''.json'')"

definition config_path :: "string \<Rightarrow> string" where
  "config_path arg = os_path_join ''crypto_journey'' (config_filename arg)"

definition do_save_config ::
  "(pyval \<Rightarrow> string) \<Rightarrow> string \<Rightarrow> pyval \<Rightarrow> world \<Rightarrow> msg list \<times> world" where
  "do_save_config dumps arg config w =
     (if write_denied w (config_path arg) then ([Err_save], w)
      else ([Ok_saved (config_filename arg)],
            w\<lparr>files := (files w)(config_path arg \<mapsto> dumps config)\<rparr>))"

text \<open>The body of the \<^verbatim>\<open>try\<close> of \<^verbatim>\<open>do_load_config\<close>: \<^verbatim>\<open>open\<close> for reading, then \<^verbatim>\<open>json.load\<close>.\<close>

definition load_try :: "(string \<Rightarrow> py_exn + pyval) \<Rightarrow> string \<Rightarrow> world \<Rightarrow> py_exn + pyval" where
  "load_try loads arg w =
     (case read_error w (config_path arg) of
        Some e \<Rightarrow> Inl e
      | None \<Rightarrow>
          (case files w (config_path arg) of
             None \<Rightarrow> Inl FileNotFoundError
           | Some text \<Rightarrow> loads text))"

text \<open>The three \<^verbatim>\<open>except\<close> clauses in their order; the last one catches every exception.\<close>

definition do_load_config ::
  "(string \<Rightarrow> py_exn + pyval) \<Rightarrow> string \<Rightarrow> pyval \<Rightarrow> world \<Rightarrow> msg list \<times> pyval" where
  "do_load_config loads arg config w =
     (case load_try loads arg w of
        Inr v \<Rightarrow> ([Ok_loaded (config_filename arg)], v)
      | Inl e \<Rightarrow>
          if e = FileNotFoundError then ([Err_file_not_found (config_filename arg)], config)
          else if e = JSONDecodeError then ([Err_invalid_json (config_filename arg)], config)
          else ([Err_load e], config))"

subsection \<open>Sequences of commands\<close>

datatype command = Set_parameter string | Save_config string | Load_config string

text \<open>
  One command on the configuration and the file system. An exception that leaves a
  handler leaves the shell's loop too, so a run stops there.
\<close>

fun step ::
  "(pyval \<Rightarrow> string) \<Rightarrow> (string \<Rightarrow> py_exn + pyval) \<Rightarrow> command \<Rightarrow> pyval \<times> world
     \<Rightarrow> py_exn + pyval \<times> world" where
  "step dumps loads (Set_parameter arg) (config, w) =
     (case snd (do_set_parameter arg config) of
        Inl e \<Rightarrow> Inl e
      | Inr config' \<Rightarrow> Inr (config', w))"
| "step dumps loads (Save_config arg) (config, w) =
     Inr (config, snd (do_save_config dumps arg config w))"
| "step dumps loads (Load_config arg) (config, w) =
     Inr (snd (do_load_config loads arg config w), w)"

fun run ::
  "(pyval \<Rightarrow> string) \<Rightarrow> (string \<Rightarrow> py_exn + pyval) \<Rightarrow> command list \<Rightarrow> pyval \<times> world
     \<Rightarrow> py_exn + pyval \<times> world" where
  "run dumps loads [] st = Inr st"
| "run dumps loads (c # cs) st =
     (case step dumps loads c st of
        Inl e \<Rightarrow> Inl e
      | Inr st' \<Rightarrow> run dumps loads cs st')"

text \<open>The eight keys, and the key set of a configuration that is a dict.\<close>

definition config_keys :: "string list" where
  "config_keys =
     [''exchange'', ''strategy'', ''coin'', ''quote'', ''cash_at_risk'', ''start_date'',
      ''end_date'', ''min_timestep'']"

fun key_set :: "pyval \<Rightarrow> string set option" where
  "key_set (PDict kvs) = Some (fst ` set kvs)"
| "key_set c = None"

definition has_config_keys :: "pyval \<Rightarrow> bool" where
  "has_config_keys config = (key_set config = Some (set config_keys))"

text \<open>
  Along a run, every \<^verbatim>\<open>load_config\<close> that succeeds reads a value with the eight keys.
\<close>

fun loads_keep_keys ::
  "(pyval \<Rightarrow> string) \<Rightarrow> (string \<Rightarrow> py_exn + pyval) \<Rightarrow> command list \<Rightarrow> pyval \<times> world
     \<Rightarrow> bool" where
  "loads_keep_keys dumps loads [] st = True"
| "loads_keep_keys dumps loads (c # cs) st =
     ((case c of
         Load_config arg \<Rightarrow>
           (case load_try loads arg (snd st) of Inl e \<Rightarrow> True | Inr v \<Rightarrow> has_config_keys v)
       | Set_parameter arg \<Rightarrow> True
       | Save_config arg \<Rightarrow> True) \<and>
      (case step dumps loads c st of
         Inl e \<Rightarrow> True
       | Inr st' \<Rightarrow> loads_keep_keys dumps loads cs st'))"

text \<open>
  The rules of the validator as the specification words them: what is in range for a
  parameter name, and the value stored for it. A date in range is a string of the form
  YYYY-MM-DD, four, two and two decimal digits, that names a day of the calendar.
\<close>

definition iso_date :: "string \<Rightarrow> bool" where
  "iso_date v =
     (length v = 10 \<and> list_all is_digit (take 4 v) \<and> v ! 4 = CHR ''-'' \<and>
      list_all is_digit (take 2 (drop 5 v)) \<and> v ! 7 = CHR ''-'' \<and>
      list_all is_digit (drop 8 v) \<and>
      1 \<le> digits_val (take 4 v) \<and>
      1 \<le> digits_val (take 2 (drop 5 v)) \<and> digits_val (take 2 (drop 5 v)) \<le> 12 \<and>
      1 \<le> digits_val (drop 8 v) \<and>
      digits_val (drop 8 v) \<le> days_in_month (digits_val (take 4 v)) (digits_val (take 2 (drop 5 v))))"

definition in_range_for :: "string \<Rightarrow> string \<Rightarrow> bool" where
  "in_range_for n v =
     (if n = ''exchange'' then v \<in> set available_exchanges
      else if n = ''strategy'' then v \<in> set available_strategies
      else if n = ''cash_at_risk'' then
        (case py_float v of None \<Rightarrow> False | Some x \<Rightarrow> py_lt fzero x \<and> py_le x fone)
      else if n = ''start_date'' \<or> n = ''end_date'' then iso_date v
      else True)"

definition stored_value :: "string \<Rightarrow> string \<Rightarrow> pyval" where
  "stored_value n v =
     (if n = ''cash_at_risk'' then (case py_float v of None \<Rightarrow> PStr v | Some x \<Rightarrow> PFloat x)
      else PStr v)"

text \<open>
  For the examples: a file system without files in which nothing is refused, and
  \<^verbatim>\<open>json.dump\<close> and \<^verbatim>\<open>json.load\<close> on the empty object, whose text is \<^verbatim>\<open>{}\<close>, and on the
  default configuration, whose text is written \<^verbatim>\<open>default\<close> here; any other text is
  malformed.
\<close>

definition empty_world :: world where
  "empty_world = \<lparr>files = (\<lambda>p. None), write_denied = (\<lambda>p. False), read_error = (\<lambda>p. None)\<rparr>"

definition sample_dumps :: "pyval \<Rightarrow> string" where
  "sample_dumps v = (if v = PDict [] then ''{}'' else ''default'')"

definition sample_loads :: "string \<Rightarrow> py_exn + pyval" where
  "sample_loads t =
     (if t = ''{}'' then Inr (PDict [])
      else if t = ''default'' then Inr default_config
      else Inl JSONDecodeError)"

section \<open>Facts about the float arithmetic\<close>

lemma round_half_even_unique:
  assumes "of_int n - 1 / 2 < x" and "x < of_int n + 1 / 2"
  shows "round_half_even x = n"
proof -
  have "\<lfloor>x\<rfloor> = n \<or> \<lfloor>x\<rfloor> = n - 1" using assms by linarith
  then show ?thesis
  proof
    assume f: "\<lfloor>x\<rfloor> = n"
    then have "x - of_int n < 1 / 2" using assms by linarith
    then show ?thesis by (simp add: round_half_even_def f Let_def)
  next
    assume f: "\<lfloor>x\<rfloor> = n - 1"
    then have "1 / 2 < x - of_int (n - 1)" using assms by simp
    then show ?thesis by (simp add: round_half_even_def f Let_def)
  qed
qed

lemma round_half_even_of_int: "round_half_even (of_int n) = n"
  by (rule round_half_even_unique) simp_all

text \<open>Rounding a magnitude, given its exponent and the integer nearest to its scaled value.\<close>

lemma round_mag_eqI:
  assumes "m \<noteq> 0" and "ilog2 m = e" and "max (e - 52) (- 1074) = q"
    and "of_int n - 1 / 2 < m / pow2 q" and "m / pow2 q < of_int n + 1 / 2"
  shows "round_mag m = of_int n * pow2 q"
  using assms round_half_even_unique [OF assms(4) assms(5)]
  by (simp add: round_mag_def Let_def)

text \<open>A magnitude that is an integer multiple of its unit in the last place is not changed.\<close>

lemma round_mag_exact:
  assumes "m / pow2 (max (ilog2 m - 52) (- 1074)) = of_int n"
  shows "round_mag m = m"
proof (cases "m = 0")
  case True
  then show ?thesis by (simp add: round_mag_def)
next
  case False
  have p: "pow2 (max (ilog2 m - 52) (- 1074)) \<noteq> 0" by (simp add: pow2_def)
  have "round_mag m = of_int n * pow2 (max (ilog2 m - 52) (- 1074))"
    using False by (simp add: round_mag_def Let_def assms round_half_even_of_int)
  also have "\<dots> = m" using assms p by (simp add: field_simps)
  finally show ?thesis .
qed

lemma round_one: "round_mag 1 = 1"
  by (rule round_mag_exact [where n = "2 ^ 52"])
    (simp add: ilog2_def log2_up.simps pow2_def)

lemma round_25: "round_mag 25 = 25"
  by (rule round_mag_exact [where n = "25 * 2 ^ 48"])
    (simp add: ilog2_def log2_up.simps pow2_def)

lemma round_half: "round_mag (1 / 2) = 1 / 2"
  by (rule round_mag_exact [where n = "2 ^ 52"])
    (simp add: ilog2_def log2_down.simps pow2_def)

lemma round_three_halves: "round_mag (3 / 2) = 3 / 2"
  by (rule round_mag_exact [where n = "3 * 2 ^ 51"])
    (simp add: ilog2_def log2_up.simps pow2_def)

lemma round_quarter: "round_mag (1 / 4) = 1 / 4"
  by (rule round_mag_exact [where n = "2 ^ 52"])
    (simp add: ilog2_def log2_down.simps pow2_def)

text \<open>\<^verbatim>\<open>1.0 / 49.0\<close> and \<^verbatim>\<open>(1.0 / 49.0) * 49.0\<close>: the second is \<^verbatim>\<open>0.9999999999999999\<close>.\<close>

lemma round_inv49: "round_mag (1 / 49) = 5882252574524729 / 288230376151711744"
proof -
  have "round_mag (1 / 49) = of_int 5882252574524729 * pow2 (- 58)"
    by (rule round_mag_eqI [where e = "- 6"])
      (simp_all add: ilog2_def log2_down.simps pow2_def)
  then show ?thesis by (simp add: pow2_def)
qed

lemma round_back49:
  "round_mag (5882252574524729 / 288230376151711744 * 49) = 9007199254740991 / 9007199254740992"
proof -
  have "round_mag (5882252574524729 / 288230376151711744 * 49) =
      of_int 9007199254740991 * pow2 (- 53)"
    by (rule round_mag_eqI [where e = "- 1"])
      (simp_all add: ilog2_def log2_down.simps pow2_def)
  then show ?thesis by (simp add: pow2_def)
qed

lemma mul_100: "fmul (Finite False 100) (Finite False (1 / 4)) = Finite False 25"
  using round_25 by (simp add: fround_def pow2_def)

lemma div_25: "fdiv (Finite False 25) (Finite False 50) = Inr (Finite False (1 / 2))"
  using round_half by (simp add: fdiv_def fround_def pow2_def)

lemma mul_half: "fmul (Finite False (1 / 2)) (Finite False 50) = Finite False 25"
  using round_25 by (simp add: fround_def pow2_def)

lemma mul_one: "fmul (Finite False 1) (Finite False 1) = Finite False 1"
  using round_one by (simp add: fround_def pow2_def)

lemma div_49: "fdiv (Finite False 1) (Finite False 49) =
    Inr (Finite False (5882252574524729 / 288230376151711744))"
  using round_inv49 by (simp add: fdiv_def fround_def pow2_def)

lemma mul_49: "fmul (Finite False (5882252574524729 / 288230376151711744)) (Finite False 49) =
    Finite False (9007199254740991 / 9007199254740992)"
  using round_back49 by (simp add: fround_def pow2_def)

section \<open>Facts about the shell\<close>


lemma py_lower_config_keys: "n \<in> set config_keys \<Longrightarrow> py_lower n = n"
  by (auto simp: config_keys_def py_lower_def lower_char_def code_def)

lemma not_le_zero_if_pos: "py_lt fzero x \<Longrightarrow> \<not> py_le x fzero"
  by (cases x) (auto simp: fzero_def fval_def)

lemma not_gt_one_if_le: "py_le x fone \<Longrightarrow> \<not> py_gt x fone"
  by (cases x) (auto simp: fone_def fval_def py_gt_def)

lemma range_test_passes_iff:
  "(\<not> (py_le x fzero \<or> py_gt x fone)) = (x = NaN \<or> (py_lt fzero x \<and> py_le x fone))"
  by (cases x) (auto simp: fzero_def fone_def fval_def py_gt_def)


text \<open>Dates: the regular expression of \<^verbatim>\<open>strptime\<close> on strings of the form YYYY-MM-DD.\<close>

lemma code_inject: "code a = code b \<Longrightarrow> a = b"
  by (simp add: code_def)

lemma list10:
  assumes "length v = 10"
  obtains a b c d e f g h i j where "v = [a, b, c, d, e, f, g, h, i, j]"
  using assms by (auto simp: eval_nat_numeral length_Suc_conv)

lemma digits_val2: "digits_val [a, b] = 10 * digit_val a + digit_val b"
  by (simp add: digits_val_def)

lemma month_two_digits:
  assumes "is_digit a" and "is_digit b"
    and "1 \<le> 10 * digit_val a + digit_val b" and "10 * digit_val a + digit_val b \<le> 12"
  shows "\<exists>tl. match_month (a # b # r) = (10 * digit_val a + digit_val b, r) # tl"
proof -
  have "code a = 48 \<or> code a = 49"
    using assms by (simp add: is_digit_def digit_val_def) arith
  then have "a = CHR ''0'' \<or> a = CHR ''1''"
    by (auto intro: code_inject simp: code_def)
  then show ?thesis
  proof
    assume a: "a = CHR ''0''"
    then show ?thesis
      using assms by (simp add: match_month_def in_range_def is_digit_def digit_val_def code_def)
  next
    assume a: "a = CHR ''1''"
    then show ?thesis
      using assms by (simp add: match_month_def in_range_def is_digit_def digit_val_def code_def)
  qed
qed

lemma day_two_digits:
  assumes "is_digit c" and "is_digit e"
    and "1 \<le> 10 * digit_val c + digit_val e" and "10 * digit_val c + digit_val e \<le> 31"
  shows "\<exists>tl. match_day [c, e] = (10 * digit_val c + digit_val e, []) # tl"
proof -
  have "code c = 48 \<or> code c = 49 \<or> code c = 50 \<or> code c = 51"
    using assms by (simp add: is_digit_def digit_val_def) arith
  then have "c = CHR ''0'' \<or> c = CHR ''1'' \<or> c = CHR ''2'' \<or> c = CHR ''3''"
    by (auto intro: code_inject simp: code_def)
  then consider "c = CHR ''0''" | "c = CHR ''1''" | "c = CHR ''2''" | "c = CHR ''3''"
    by auto
  then show ?thesis
  proof cases
    case 1
    then show ?thesis
      using assms by (simp add: match_day_def in_range_def is_digit_def digit_val_def code_def)
  next
    case 2
    then show ?thesis
      using assms by (simp add: match_day_def in_range_def is_digit_def digit_val_def code_def)
  next
    case 3
    then show ?thesis
      using assms by (simp add: match_day_def in_range_def is_digit_def digit_val_def code_def)
  next
    case 4
    then show ?thesis
      using assms by (simp add: match_day_def in_range_def is_digit_def digit_val_def code_def)
  qed
qed

lemma days_in_month_le: "days_in_month y m \<le> 31"
  by (simp add: days_in_month_def)

text \<open>Every date of the form YYYY-MM-DD is parsed, to the year, month and day it names.\<close>

lemma iso_date_parses:
  assumes "iso_date v"
  shows "strptime_ymd v =
    Some (digits_val (take 4 v), digits_val (take 2 (drop 5 v)), digits_val (drop 8 v))"
proof -
  have len: "length v = 10" using assms by (simp add: iso_date_def)
  then obtain y1 y2 y3 y4 h1 m1 m2 h2 d1 d2
    where v: "v = [y1, y2, y3, y4, h1, m1, m2, h2, d1, d2]"
    by (rule list10)
  have h: "h1 = CHR ''-''" "h2 = CHR ''-''"
    and yd: "is_digit y1" "is_digit y2" "is_digit y3" "is_digit y4"
    and md: "is_digit m1" "is_digit m2" and dd: "is_digit d1" "is_digit d2"
    and y: "1 \<le> digits_val [y1, y2, y3, y4]"
    and m: "1 \<le> 10 * digit_val m1 + digit_val m2" "10 * digit_val m1 + digit_val m2 \<le> 12"
    and d: "1 \<le> 10 * digit_val d1 + digit_val d2"
      "10 * digit_val d1 + digit_val d2 \<le>
         days_in_month (digits_val [y1, y2, y3, y4]) (10 * digit_val m1 + digit_val m2)"
    using assms by (simp_all add: iso_date_def v digits_val2)
  have d31: "10 * digit_val d1 + digit_val d2 \<le> 31"
    using d(2) days_in_month_le [of "digits_val [y1, y2, y3, y4]" "10 * digit_val m1 + digit_val m2"]
    by simp
  obtain tm where tm: "match_month [m1, m2, CHR ''-'', d1, d2] =
      (10 * digit_val m1 + digit_val m2, [CHR ''-'', d1, d2]) # tm"
    using month_two_digits [OF md m] by blast
  obtain td where td: "match_day [d1, d2] = (10 * digit_val d1 + digit_val d2, []) # td"
    using day_two_digits [OF dd d(1) d31] by blast
  have "match_ymd v = Some (digits_val [y1, y2, y3, y4], 10 * digit_val m1 + digit_val m2,
      10 * digit_val d1 + digit_val d2, [])"
    using yd by (simp add: match_ymd_def v h tm td)
  then show ?thesis
    using y d by (simp add: strptime_ymd_def v digits_val2)
qed

lemma validate_in_range:
  assumes "in_range_for n v"
  shows "validate n v = Inr (stored_value n v)"
proof (cases "n = ''cash_at_risk''")
  case True
  have "case py_float v of None \<Rightarrow> False | Some x \<Rightarrow> py_lt fzero x \<and> py_le x fone"
    using assms True by (simp add: in_range_for_def)
  then obtain x where x: "py_float v = Some x" "py_lt fzero x" "py_le x fone"
    by (cases "py_float v") simp_all
  then show ?thesis
    using True not_le_zero_if_pos [OF x(2)] not_gt_one_if_le [OF x(3)]
    by (simp add: validate_def stored_value_def)
next
  case car: False
  show ?thesis
  proof (cases "n = ''exchange''")
    case True
    then show ?thesis using assms by (simp add: in_range_for_def validate_def stored_value_def)
  next
    case ex: False
    show ?thesis
    proof (cases "n = ''strategy''")
      case True
      then show ?thesis using assms by (simp add: in_range_for_def validate_def stored_value_def)
    next
      case st: False
      show ?thesis
      proof (cases "n = ''start_date'' \<or> n = ''end_date''")
        case True
        then have "iso_date v"
          using assms car ex st by (simp add: in_range_for_def)
        then obtain d where "strptime_ymd v = Some d" using iso_date_parses by blast
        then show ?thesis
          using True car ex st by (simp add: validate_def stored_value_def)
      next
        case False
        then show ?thesis
          using car ex st by (simp add: validate_def stored_value_def)
      qed
    qed
  qed
qed


lemma name_cases [case_names exchange strategy cash date other]:
  assumes "n = ''exchange'' \<Longrightarrow> P" and "n = ''strategy'' \<Longrightarrow> P"
    and "n = ''cash_at_risk'' \<Longrightarrow> P" and "n = ''start_date'' \<or> n = ''end_date'' \<Longrightarrow> P"
    and "\<lbrakk>n \<noteq> ''exchange''; n \<noteq> ''strategy''; n \<noteq> ''cash_at_risk'';
          n \<noteq> ''start_date''; n \<noteq> ''end_date''\<rbrakk> \<Longrightarrow> P"
  shows P
proof (cases "n = ''exchange''")
  case True
  then show ?thesis by (rule assms(1))
next
  case ex: False
  show ?thesis
  proof (cases "n = ''strategy''")
    case True
    then show ?thesis by (rule assms(2))
  next
    case st: False
    show ?thesis
    proof (cases "n = ''cash_at_risk''")
      case True
      then show ?thesis by (rule assms(3))
    next
      case car: False
      show ?thesis
      proof (cases "n = ''start_date'' \<or> n = ''end_date''")
        case True
        then show ?thesis by (rule assms(4))
      next
        case False
        then have "n \<noteq> ''start_date''" "n \<noteq> ''end_date''" by simp_all
        with ex st car show ?thesis by (rule assms(5))
      qed
    qed
  qed
qed

lemma validate_exchange:
  "validate ''exchange'' v =
     (if v \<in> set available_exchanges then Inr (PStr v)
      else Inl [Err_unknown_exchange v, Hint_list_exchanges])"
  by (simp add: validate_def)

lemma validate_strategy:
  "validate ''strategy'' v =
     (if v \<in> set available_strategies then Inr (PStr v)
      else Inl [Err_unknown_strategy v, Hint_list_strategies])"
  by (simp add: validate_def)

lemma validate_cash:
  "validate ''cash_at_risk'' v =
     (case py_float v of
        None \<Rightarrow> Inl [Err_cash_not_float]
      | Some x \<Rightarrow> if py_le x fzero \<or> py_gt x fone then Inl [Err_cash_range] else Inr (PFloat x))"
  by (simp add: validate_def)

lemma validate_date:
  assumes "n = ''start_date'' \<or> n = ''end_date''"
  shows "validate n v =
     (case strptime_ymd v of None \<Rightarrow> Inl [Err_date_format] | Some date \<Rightarrow> Inr (PStr v))"
proof -
  have "n \<noteq> ''exchange''" "n \<noteq> ''strategy''" "n \<noteq> ''cash_at_risk''"
    using assms by (elim disjE; simp)+
  then show ?thesis using assms by (simp add: validate_def)
qed

lemma validate_other:
  assumes "n \<noteq> ''exchange''" "n \<noteq> ''strategy''" "n \<noteq> ''cash_at_risk''"
    "n \<noteq> ''start_date''" "n \<noteq> ''end_date''"
  shows "validate n v = Inr (PStr v)"
  using assms by (simp add: validate_def)

lemma validate_error:
  assumes "validate n v = Inl errs"
  shows "error_shown errs"
proof -
  have e: "Inl errs = validate n v" using assms by simp
  show ?thesis
  proof (cases n rule: name_cases)
    case exchange
    then show ?thesis
      using e by (simp add: validate_exchange error_shown_def split: if_splits)
  next
    case strategy
    then show ?thesis
      using e by (simp add: validate_strategy error_shown_def split: if_splits)
  next
    case cash
    then show ?thesis
      using e by (simp add: validate_cash error_shown_def split: if_splits option.splits)
  next
    case date
    then show ?thesis
      using e by (simp add: validate_date error_shown_def split: option.splits)
  next
    case other
    then show ?thesis using e by (simp add: validate_other)
  qed
qed


lemma update_config_dict:
  "update_config (PDict kvs) n v =
     (if n \<in> fst ` set kvs then ([Ok_set n v], Inr (PDict (AList.update n v kvs)))
      else ([Err_unknown_param n, Available_params (map fst kvs)], Inr (PDict kvs)))"
  by (simp add: update_config_def)

lemma update_config_returns_dict:
  assumes "update_config config n v = (ms, Inr config')"
  shows "\<exists>kvs. config = PDict kvs"
  using assms by (cases config) (simp_all add: update_config_def split: if_splits)

lemma update_config_keys:
  assumes "update_config config n v = (ms, Inr config')"
  shows "key_set config' = key_set config"
proof -
  obtain kvs where c: "config = PDict kvs"
    using update_config_returns_dict [OF assms] by blast
  show ?thesis
  proof (cases "n \<in> fst ` set kvs")
    case True
    then have "config' = PDict (AList.update n v kvs)"
      using assms by (simp add: c update_config_dict)
    moreover have "fst ` set (AList.update n v kvs) = fst ` set kvs"
      using True by (simp add: AList.dom_update insert_absorb)
    ultimately show ?thesis by (simp add: c)
  next
    case False
    then show ?thesis using assms by (simp add: c update_config_dict)
  qed
qed

lemma set_parameter_keys:
  assumes "do_set_parameter arg config = (ms, Inr config')"
  shows "key_set config' = key_set config"
proof (cases "length (py_split arg) < 2")
  case True
  then show ?thesis using assms by (simp add: do_set_parameter_def)
next
  case False
  show ?thesis
  proof (cases "validate (py_lower (py_split arg ! 0)) (py_split arg ! 1)")
    case (Inl errs)
    then show ?thesis using assms False by (simp add: do_set_parameter_def)
  next
    case (Inr v)
    then have "update_config config (py_lower (py_split arg ! 0)) v = (ms, Inr config')"
      using assms False by (simp add: do_set_parameter_def)
    then show ?thesis by (rule update_config_keys)
  qed
qed

lemma set_parameter_dict_returns:
  "\<exists>ms kvs'. do_set_parameter arg (PDict kvs) = (ms, Inr (PDict kvs'))"
proof (cases "length (py_split arg) < 2")
  case True
  then show ?thesis by (simp add: do_set_parameter_def)
next
  case False
  show ?thesis
  proof (cases "validate (py_lower (py_split arg ! 0)) (py_split arg ! 1)")
    case (Inl errs)
    then show ?thesis using False by (simp add: do_set_parameter_def)
  next
    case (Inr v)
    then show ?thesis
      using False
      by (cases "py_lower (py_split arg ! 0) \<in> fst ` set kvs")
        (simp_all add: do_set_parameter_def update_config_dict Let_def)
  qed
qed

text \<open>A rejected value: the lines of the validator are printed, one of them an error, and
  the configuration is the one before.\<close>

lemma set_parameter_rejected:
  assumes "py_split arg = n # v # rest" and "validate (py_lower n) v = Inl errs"
  shows "do_set_parameter arg config = (errs, Inr config) \<and> error_shown errs"
  using assms validate_error [OF assms(2)] by (simp add: do_set_parameter_def)

lemma set_parameter_unknown_key:
  assumes "py_split arg = n # v # rest" and "validate (py_lower n) v = Inr x"
    and "py_lower n \<notin> fst ` set kvs"
  shows "do_set_parameter arg (PDict kvs) =
           ([Err_unknown_param (py_lower n), Available_params (map fst kvs)], Inr (PDict kvs))"
  using assms by (simp add: do_set_parameter_def update_config_dict)

lemma set_parameter_accepted:
  assumes "py_split arg = n # v # rest" and "validate (py_lower n) v = Inr x"
    and "py_lower n \<in> fst ` set kvs"
  shows "do_set_parameter arg (PDict kvs) =
           ([Ok_set (py_lower n) x], Inr (PDict (AList.update (py_lower n) x kvs)))"
  using assms by (simp add: do_set_parameter_def update_config_dict)

lemma shown_lines: "shown (map (\<lambda>(k, v). Config_line k v) kvs) = kvs"
  by (induction kvs) auto

lemma show_config_dict:
  "do_show_config (PDict kvs) =
     (Config_header # map (\<lambda>(k, v). Config_line k v) kvs, Inr (PDict kvs))"
  by (simp add: do_show_config_def)

lemma shown_show_config: "shown (fst (do_show_config (PDict kvs))) = kvs"
  by (simp add: show_config_dict shown_lines)

subsection \<open>The handlers on concrete command lines\<close>

lemma split_nan: "py_split ''cash_at_risk nan'' = [''cash_at_risk'', ''nan'']"
  by (simp add: py_split_def is_space_def code_def)

lemma float_nan: "py_float ''nan'' = Some NaN"
  by (simp add: py_float_def split_sign_def py_lower_def lower_char_def code_def is_digit_def)

lemma float_half: "py_float ''0.5'' = Some (Finite False (1 / 2))"
  using round_half
  by (simp add: py_float_def split_sign_def py_lower_def lower_char_def code_def is_digit_def
      parse_number_def parse_exponent_def digits_val_def digit_val_def pow10_def fround_def
      pow2_def Let_def)

lemma date_ok: "strptime_ymd ''2023-07-15'' = Some (2023, 7, 15)"
  by (simp add: strptime_ymd_def match_ymd_def match_month_def match_day_def in_range_def
      is_digit_def digits_val_def digit_val_def code_def days_in_month_def leap_year_def)

lemma date_bad: "strptime_ymd ''2023/01/01'' = None"
  by (simp add: strptime_ymd_def match_ymd_def match_month_def match_day_def in_range_def
      is_digit_def digits_val_def digit_val_def code_def days_in_month_def leap_year_def)

lemma split_eth: "py_split ''coin ETH'' = [''coin'', ''ETH'']"
  by (simp add: py_split_def is_space_def code_def)

lemma split_half: "py_split ''cash_at_risk 0.5'' = [''cash_at_risk'', ''0.5'']"
  by (simp add: py_split_def is_space_def code_def)

lemma lower_cash: "py_lower ''cash_at_risk'' = ''cash_at_risk''"
  by (simp add: py_lower_def lower_char_def code_def)

lemma lower_coin: "py_lower ''coin'' = ''coin''"
  by (simp add: py_lower_def lower_char_def code_def)

lemma default_path: "config_path '''' = ''crypto_journey/crypto_config.json''"
  by (simp add: config_path_def config_filename_def os_path_join_def py_endswith_def)

lemma set_coin_eth:
  "do_set_parameter ''coin ETH'' default_config =
     ([Ok_set ''coin'' (PStr ''ETH'')],
      Inr (PDict [(''exchange'', PStr ''coinbase''), (''strategy'', PStr ''random''),
            (''coin'', PStr ''ETH''), (''quote'', PStr ''USD''),
            (''cash_at_risk'', PFloat (Finite False (1 / 4))),
            (''start_date'', PStr ''2023-06-01''), (''end_date'', PStr ''2023-12-31''),
            (''min_timestep'', PStr ''day'')]))"
  by (simp add: do_set_parameter_def split_eth lower_coin validate_def update_config_dict
      default_config_def)

text \<open>
  The three rejections the specification names: \<^verbatim>\<open>cash_at_risk=1.5\<close>, \<^verbatim>\<open>exchange=foo\<close> and
  \<^verbatim>\<open>start_date=2023/01/01\<close> each print an error and leave the default configuration as it is.
\<close>

lemma float_three_halves: "py_float ''1.5'' = Some (Finite False (3 / 2))"
  using round_three_halves
  by (simp add: py_float_def split_sign_def py_lower_def lower_char_def code_def is_digit_def
      parse_number_def parse_exponent_def digits_val_def digit_val_def pow10_def fround_def
      pow2_def Let_def)

lemma rejected_examples:
  "do_set_parameter ''cash_at_risk 1.5'' default_config = ([Err_cash_range], Inr default_config)"
  "do_set_parameter ''exchange foo'' default_config =
     ([Err_unknown_exchange ''foo'', Hint_list_exchanges], Inr default_config)"
  "do_set_parameter ''start_date 2023/01/01'' default_config =
     ([Err_date_format], Inr default_config)"
proof -
  have s1: "py_split ''cash_at_risk 1.5'' = [''cash_at_risk'', ''1.5'']"
    by (simp add: py_split_def is_space_def code_def)
  have s2: "py_split ''exchange foo'' = [''exchange'', ''foo'']"
    by (simp add: py_split_def is_space_def code_def)
  have s3: "py_split ''start_date 2023/01/01'' = [''start_date'', ''2023/01/01'']"
    by (simp add: py_split_def is_space_def code_def)
  have l2: "py_lower ''exchange'' = ''exchange''"
    by (simp add: py_lower_def lower_char_def code_def)
  have l3: "py_lower ''start_date'' = ''start_date''"
    by (simp add: py_lower_def lower_char_def code_def)
  show "do_set_parameter ''cash_at_risk 1.5'' default_config =
      ([Err_cash_range], Inr default_config)"
    by (simp add: do_set_parameter_def s1 lower_cash validate_cash float_three_halves
        fone_def fzero_def fval_def py_gt_def)
  show "do_set_parameter ''exchange foo'' default_config =
      ([Err_unknown_exchange ''foo'', Hint_list_exchanges], Inr default_config)"
    by (simp add: do_set_parameter_def s2 l2 validate_exchange available_exchanges_def)
  show "do_set_parameter ''start_date 2023/01/01'' default_config =
      ([Err_date_format], Inr default_config)"
    by (simp add: do_set_parameter_def s3 l3 validate_date date_bad)
qed

text \<open>What passes the validator for \<^verbatim>\<open>cash_at_risk\<close>: the values in (0, 1], and NaN.\<close>

lemma cash_accepted_iff:
  "(\<exists>y. validate ''cash_at_risk'' v = Inr y) =
     (\<exists>x. py_float v = Some x \<and> (x = NaN \<or> (py_lt fzero x \<and> py_le x fone)))"
proof (cases "py_float v")
  case None
  then show ?thesis by (simp add: validate_cash)
next
  case (Some x)
  then show ?thesis
    using range_test_passes_iff [of x] by (auto simp: validate_cash)
qed

lemma default_has_keys: "has_config_keys default_config"
  by (simp add: has_config_keys_def default_config_def config_keys_def)

lemma has_config_keys_dict:
  assumes "has_config_keys config"
  obtains kvs where "config = PDict kvs" and "fst ` set kvs = set config_keys"
  using assms by (cases config) (simp_all add: has_config_keys_def)

lemma step_keeps_keys:
  assumes "has_config_keys config"
    and "\<And>arg v. c = Load_config arg \<Longrightarrow> load_try loads arg w = Inr v \<Longrightarrow> has_config_keys v"
  shows "\<exists>config' w'. step dumps loads c (config, w) = Inr (config', w') \<and> has_config_keys config'"
proof (cases c)
  case (Set_parameter arg)
  obtain kvs where k: "config = PDict kvs"
    using assms(1) by (rule has_config_keys_dict)
  obtain ms kvs' where r: "do_set_parameter arg (PDict kvs) = (ms, Inr (PDict kvs'))"
    using set_parameter_dict_returns by blast
  have "key_set (PDict kvs') = key_set (PDict kvs)"
    using r by (rule set_parameter_keys)
  then have "has_config_keys (PDict kvs')"
    using assms(1) by (simp add: has_config_keys_def k)
  then show ?thesis by (simp add: Set_parameter k r)
next
  case (Save_config arg)
  then show ?thesis using assms(1) by simp
next
  case (Load_config arg)
  show ?thesis
  proof (cases "load_try loads arg w")
    case (Inl e)
    then show ?thesis using assms(1) by (simp add: Load_config do_load_config_def)
  next
    case (Inr v)
    then have "has_config_keys v" using assms(2) Load_config by blast
    then show ?thesis using Inr by (simp add: Load_config do_load_config_def)
  qed
qed

section \<open>The claims about the shell\<close>

text \<open>
  C1, as amended. From a configuration with exactly the eight keys (the default one is
  such), any sequence of \<^verbatim>\<open>set_parameter\<close>, \<^verbatim>\<open>save_config\<close> and \<^verbatim>\<open>load_config\<close> commands in
  which every \<^verbatim>\<open>load_config\<close> that succeeds reads a value with those eight keys runs to its
  end without an exception and leaves a configuration with exactly the eight keys.
\<close>

theorem C1_keys_preserved:
  assumes "has_config_keys config"
    and "loads_keep_keys dumps loads cmds (config, w)"
  shows "\<exists>config' w'. run dumps loads cmds (config, w) = Inr (config', w') \<and>
           has_config_keys config'"
  using assms
proof (induction cmds arbitrary: config w)
  case Nil
  then show ?case by simp
next
  case (Cons c cmds)
  have "\<And>arg v. c = Load_config arg \<Longrightarrow> load_try loads arg w = Inr v \<Longrightarrow> has_config_keys v"
    using Cons.prems(2) by (auto split: sum.splits)
  then obtain config' w' where s: "step dumps loads c (config, w) = Inr (config', w')"
    and k: "has_config_keys config'"
    using step_keeps_keys [OF Cons.prems(1)] by blast
  have "loads_keep_keys dumps loads cmds (config', w')"
    using Cons.prems(2) s by simp
  then show ?case using Cons.IH [OF k] s by simp
qed

theorem C1_witness:
  "has_config_keys default_config \<and>
   loads_keep_keys sample_dumps sample_loads
     [Save_config ''my'', Set_parameter ''coin ETH'', Load_config ''my'', Load_config ''none'']
     (default_config, empty_world) \<and>
   (\<exists>config' w'.
      run sample_dumps sample_loads
        [Save_config ''my'', Set_parameter ''coin ETH'', Load_config ''my'', Load_config ''none'']
        (default_config, empty_world) = Inr (config', w') \<and>
      has_config_keys config')"
proof -
  have l: "loads_keep_keys sample_dumps sample_loads
     [Save_config ''my'', Set_parameter ''coin ETH'', Load_config ''my'', Load_config ''none'']
     (default_config, empty_world)"
    using default_has_keys
    by (simp add: set_coin_eth do_save_config_def do_load_config_def load_try_def empty_world_def
        sample_dumps_def sample_loads_def config_path_def config_filename_def os_path_join_def
        py_endswith_def)
  show ?thesis
    using C1_keys_preserved [OF default_has_keys l] default_has_keys l by simp
qed

text \<open>
  C1 as stated fails: \<^verbatim>\<open>load_config\<close> assigns what \<^verbatim>\<open>json.load\<close> returns. With
  \<^verbatim>\<open>crypto_journey/crypto_config.json\<close> holding \<^verbatim>\<open>{}\<close>, \<^verbatim>\<open>load_config\<close> on the default
  configuration leaves the empty dict, which has none of the eight keys.
\<close>

theorem C1_counterexample:
  "has_config_keys default_config \<and>
   run sample_dumps sample_loads [Load_config '''']
     (default_config, empty_world\<lparr>files := [''crypto_journey/crypto_config.json'' \<mapsto> ''{}'']\<rparr>) =
     Inr (PDict [], empty_world\<lparr>files := [''crypto_journey/crypto_config.json'' \<mapsto> ''{}'']\<rparr>) \<and>
   key_set (PDict []) = Some {} \<and>
   \<not> has_config_keys (PDict [])"
  using default_has_keys
  by (simp add: do_load_config_def load_try_def default_path sample_loads_def empty_world_def
      has_config_keys_def config_keys_def)

text \<open>
  C2: the code differs. \<^verbatim>\<open>float('nan')\<close> is a NaN, which is not a value with \<^verbatim>\<open>0 < x\<close> and
  \<^verbatim>\<open>x <= 1\<close>, yet \<^verbatim>\<open>set_parameter cash_at_risk nan\<close> passes the test
  \<^verbatim>\<open>param_value <= 0 or param_value > 1\<close> (both comparisons are false) and stores it.
\<close>

theorem C2_nan_accepted:
  "py_float ''nan'' = Some NaN \<and>
   \<not> (py_lt fzero NaN \<and> py_le NaN fone) \<and>
   do_set_parameter ''cash_at_risk nan'' default_config =
     ([Ok_set ''cash_at_risk'' (PFloat NaN)],
      Inr (PDict [(''exchange'', PStr ''coinbase''), (''strategy'', PStr ''random''),
            (''coin'', PStr ''BTC''), (''quote'', PStr ''USD''),
            (''cash_at_risk'', PFloat NaN),
            (''start_date'', PStr ''2023-06-01''), (''end_date'', PStr ''2023-12-31''),
            (''min_timestep'', PStr ''day'')]))"
  by (simp add: float_nan do_set_parameter_def split_nan lower_cash validate_cash
      update_config_dict default_config_def fzero_def fone_def py_gt_def)

text \<open>
  C3, as amended. For a command line whose first two words are a parameter name \<open>n\<close> of the
  eight and a value \<open>v\<close> in range for it, on a configuration that is a dict holding the key
  \<open>n\<close> (every configuration with the eight keys is one): \<^verbatim>\<open>set_parameter\<close> reports the
  update, and \<^verbatim>\<open>show_config\<close> afterwards shows for \<open>n\<close> the stored value (the float for
  \<^verbatim>\<open>cash_at_risk\<close>, the string otherwise), shows every other key with the value it showed
  before, and shows the same keys in the same order.
\<close>

theorem C3_set_then_show:
  assumes "py_split arg = n # v # rest"
    and "n \<in> set config_keys"
    and "in_range_for n v"
    and "n \<in> fst ` set kvs"
  shows "\<exists>kvs'.
           do_set_parameter arg (PDict kvs) =
             ([Ok_set n (stored_value n v)], Inr (PDict kvs')) \<and>
           map_of (shown (fst (do_show_config (PDict kvs')))) n = Some (stored_value n v) \<and>
           (\<forall>k. k \<noteq> n \<longrightarrow>
              map_of (shown (fst (do_show_config (PDict kvs')))) k =
              map_of (shown (fst (do_show_config (PDict kvs)))) k) \<and>
           map fst (shown (fst (do_show_config (PDict kvs')))) =
             map fst (shown (fst (do_show_config (PDict kvs))))"
proof -
  have low: "py_lower n = n" using assms(2) by (rule py_lower_config_keys)
  have val: "validate (py_lower n) v = Inr (stored_value n v)"
    unfolding low using assms(3) by (rule validate_in_range)
  have mem: "py_lower n \<in> fst ` set kvs" using assms(4) low by simp
  have set: "do_set_parameter arg (PDict kvs) =
      ([Ok_set n (stored_value n v)], Inr (PDict (AList.update n (stored_value n v) kvs)))"
    using set_parameter_accepted [OF assms(1) val mem] by (simp add: low)
  have keys: "map fst (AList.update n (stored_value n v) kvs) = map fst kvs"
    using assms(4) by (simp add: AList.update_keys)
  show ?thesis
    using set keys by (simp add: shown_show_config AList.update_conv')
qed

theorem C3_witness:
  "py_split ''cash_at_risk 0.5'' = [''cash_at_risk'', ''0.5''] \<and>
   ''cash_at_risk'' \<in> set config_keys \<and>
   in_range_for ''cash_at_risk'' ''0.5'' \<and>
   stored_value ''cash_at_risk'' ''0.5'' = PFloat (Finite False (1 / 2)) \<and>
   (\<exists>config'.
      do_set_parameter ''cash_at_risk 0.5'' default_config =
        ([Ok_set ''cash_at_risk'' (PFloat (Finite False (1 / 2)))], Inr config') \<and>
      map_of (shown (fst (do_show_config config'))) ''cash_at_risk'' =
        Some (PFloat (Finite False (1 / 2))) \<and>
      map_of (shown (fst (do_show_config config'))) ''exchange'' = Some (PStr ''coinbase'')) \<and>
   py_split ''start_date 2024-02-29'' = [''start_date'', ''2024-02-29''] \<and>
   ''start_date'' \<in> set config_keys \<and>
   in_range_for ''start_date'' ''2024-02-29'' \<and>
   (\<exists>config'.
      do_set_parameter ''start_date 2024-02-29'' default_config =
        ([Ok_set ''start_date'' (PStr ''2024-02-29'')], Inr config') \<and>
      map_of (shown (fst (do_show_config config'))) ''start_date'' = Some (PStr ''2024-02-29'') \<and>
      map_of (shown (fst (do_show_config config'))) ''end_date'' = Some (PStr ''2023-12-31''))"
proof -
  define kvs where "kvs =
     [(''exchange'', PStr ''coinbase''), (''strategy'', PStr ''random''),
      (''coin'', PStr ''BTC''), (''quote'', PStr ''USD''),
      (''cash_at_risk'', PFloat (Finite False (1 / 4))),
      (''start_date'', PStr ''2023-06-01''), (''end_date'', PStr ''2023-12-31''),
      (''min_timestep'', PStr ''day'')]"
  have dc: "default_config = PDict kvs" by (simp add: default_config_def kvs_def)
  have before: "map_of (shown (fst (do_show_config (PDict kvs)))) ''exchange'' =
      Some (PStr ''coinbase'')"
    "map_of (shown (fst (do_show_config (PDict kvs)))) ''end_date'' = Some (PStr ''2023-12-31'')"
    by (simp_all add: kvs_def shown_show_config)
  have a2: "''cash_at_risk'' \<in> set config_keys" by (simp add: config_keys_def)
  have a3: "in_range_for ''cash_at_risk'' ''0.5''"
    by (simp add: in_range_for_def float_half fzero_def fone_def fval_def)
  have a4: "''cash_at_risk'' \<in> fst ` set kvs" by (simp add: kvs_def)
  have sv: "stored_value ''cash_at_risk'' ''0.5'' = PFloat (Finite False (1 / 2))"
    by (simp add: stored_value_def float_half)
  have b1: "py_split ''start_date 2024-02-29'' = [''start_date'', ''2024-02-29'']"
    by (simp add: py_split_def is_space_def code_def)
  have b2: "''start_date'' \<in> set config_keys" by (simp add: config_keys_def)
  have b3: "in_range_for ''start_date'' ''2024-02-29''"
    by (simp add: in_range_for_def iso_date_def is_digit_def digits_val_def digit_val_def
        code_def days_in_month_def leap_year_def)
  have b4: "''start_date'' \<in> fst ` set kvs" by (simp add: kvs_def)
  have sd: "stored_value ''start_date'' ''2024-02-29'' = PStr ''2024-02-29''"
    by (simp add: stored_value_def)
  obtain kc where c:
    "do_set_parameter ''cash_at_risk 0.5'' (PDict kvs) =
       ([Ok_set ''cash_at_risk'' (stored_value ''cash_at_risk'' ''0.5'')], Inr (PDict kc))"
    "map_of (shown (fst (do_show_config (PDict kc)))) ''cash_at_risk'' =
       Some (stored_value ''cash_at_risk'' ''0.5'')"
    "\<forall>k. k \<noteq> ''cash_at_risk'' \<longrightarrow>
        map_of (shown (fst (do_show_config (PDict kc)))) k =
        map_of (shown (fst (do_show_config (PDict kvs)))) k"
    using C3_set_then_show [OF split_half a2 a3 a4] by blast
  obtain kd where d:
    "do_set_parameter ''start_date 2024-02-29'' (PDict kvs) =
       ([Ok_set ''start_date'' (stored_value ''start_date'' ''2024-02-29'')], Inr (PDict kd))"
    "map_of (shown (fst (do_show_config (PDict kd)))) ''start_date'' =
       Some (stored_value ''start_date'' ''2024-02-29'')"
    "\<forall>k. k \<noteq> ''start_date'' \<longrightarrow>
        map_of (shown (fst (do_show_config (PDict kd)))) k =
        map_of (shown (fst (do_show_config (PDict kvs)))) k"
    using C3_set_then_show [OF b1 b2 b3 b4] by blast
  have c': "map_of (shown (fst (do_show_config (PDict kc)))) ''exchange'' =
      Some (PStr ''coinbase'')"
    using c(3) before(1) by simp
  have d': "map_of (shown (fst (do_show_config (PDict kd)))) ''end_date'' =
      Some (PStr ''2023-12-31'')"
    using d(3) before(2) by simp
  have first: "\<exists>config'.
      do_set_parameter ''cash_at_risk 0.5'' default_config =
        ([Ok_set ''cash_at_risk'' (PFloat (Finite False (1 / 2)))], Inr config') \<and>
      map_of (shown (fst (do_show_config config'))) ''cash_at_risk'' =
        Some (PFloat (Finite False (1 / 2))) \<and>
      map_of (shown (fst (do_show_config config'))) ''exchange'' = Some (PStr ''coinbase'')"
    using c(1) c(2) c' unfolding dc sv by blast
  have second: "\<exists>config'.
      do_set_parameter ''start_date 2024-02-29'' default_config =
        ([Ok_set ''start_date'' (PStr ''2024-02-29'')], Inr config') \<and>
      map_of (shown (fst (do_show_config config'))) ''start_date'' = Some (PStr ''2024-02-29'') \<and>
      map_of (shown (fst (do_show_config config'))) ''end_date'' = Some (PStr ''2023-12-31'')"
    using d(1) d(2) d' unfolding dc sd by blast
  show ?thesis
    using split_half a2 a3 sv first b1 b2 b3 second by (intro conjI)
qed

text \<open>
  C3 as stated fails on a configuration that does not hold the key. \<^verbatim>\<open>load_config\<close> of a
  file holding \<^verbatim>\<open>{}\<close> leaves the empty dict; there \<^verbatim>\<open>set_parameter coin ETH\<close>, a valid name
  with a value in range, prints the unknown-parameter error and sets nothing, and
  \<^verbatim>\<open>show_config\<close> shows no line for \<^verbatim>\<open>coin\<close>.
\<close>

theorem C3_counterexample:
  "py_split ''coin ETH'' = [''coin'', ''ETH''] \<and>
   ''coin'' \<in> set config_keys \<and>
   in_range_for ''coin'' ''ETH'' \<and>
   run sample_dumps sample_loads [Load_config '''']
     (default_config, empty_world\<lparr>files := [''crypto_journey/crypto_config.json'' \<mapsto> ''{}'']\<rparr>) =
     Inr (PDict [], empty_world\<lparr>files := [''crypto_journey/crypto_config.json'' \<mapsto> ''{}'']\<rparr>) \<and>
   do_set_parameter ''coin ETH'' (PDict []) =
     ([Err_unknown_param ''coin'', Available_params []], Inr (PDict [])) \<and>
   do_show_config (PDict []) = ([Config_header], Inr (PDict [])) \<and>
   map_of (shown (fst (do_show_config (PDict [])))) ''coin'' = None"
  by (simp add: split_eth lower_coin config_keys_def in_range_for_def do_load_config_def
      load_try_def default_path sample_loads_def empty_world_def do_set_parameter_def
      validate_def update_config_dict do_show_config_def)

text \<open>
  C4: the code differs, by the defect of C2. \<^verbatim>\<open>nan\<close> is not a float in (0, 1], yet
  \<^verbatim>\<open>set_parameter cash_at_risk nan\<close> prints no error and changes the configuration. (For
  every value the validator does reject, \<open>set_parameter_rejected\<close> gives the error and the
  unchanged configuration, and \<open>set_parameter_unknown_key\<close> the same for an unknown key.)
\<close>

theorem C4_nan_changes_store:
  "\<not> in_range_for ''cash_at_risk'' ''nan'' \<and>
   \<not> error_shown (fst (do_set_parameter ''cash_at_risk nan'' default_config)) \<and>
   snd (do_set_parameter ''cash_at_risk nan'' default_config) \<noteq> Inr default_config"
  by (simp add: in_range_for_def float_nan do_set_parameter_def split_nan lower_cash
      validate_cash update_config_dict default_config_def fzero_def fone_def py_gt_def
      error_shown_def)

text \<open>
  C5, as amended. When the path of the file can be opened for writing and for reading, and
  \<^verbatim>\<open>json.load\<close> returns the configuration from the text \<^verbatim>\<open>json.dump\<close> writes for it,
  \<^verbatim>\<open>save_config\<close> followed by \<^verbatim>\<open>load_config\<close> with the same argument succeeds and the
  configuration after the load is the one saved, whatever it was before the load.
\<close>

theorem C5_save_then_load:
  assumes "\<not> write_denied w (config_path arg)"
    and "read_error w (config_path arg) = None"
    and "loads (dumps config) = Inr config"
  shows "fst (do_save_config dumps arg config w) = [Ok_saved (config_filename arg)] \<and>
         do_load_config loads arg current (snd (do_save_config dumps arg config w)) =
           ([Ok_loaded (config_filename arg)], config)"
  using assms by (simp add: do_save_config_def do_load_config_def load_try_def)

theorem C5_witness:
  "\<not> write_denied empty_world (config_path ''my'') \<and>
   read_error empty_world (config_path ''my'') = None \<and>
   sample_loads (sample_dumps default_config) = Inr default_config \<and>
   fst (do_save_config sample_dumps ''my'' default_config empty_world) = [Ok_saved ''my.json''] \<and>
   do_load_config sample_loads ''my'' (PDict [])
       (snd (do_save_config sample_dumps ''my'' default_config empty_world)) =
     ([Ok_loaded ''my.json''], default_config)"
proof -
  have h1: "\<not> write_denied empty_world (config_path ''my'')" by (simp add: empty_world_def)
  have h2: "read_error empty_world (config_path ''my'') = None" by (simp add: empty_world_def)
  have h3: "sample_loads (sample_dumps default_config) = Inr default_config"
    by (simp add: sample_loads_def sample_dumps_def default_config_def)
  have f: "config_filename ''my'' = ''my.json''"
    by (simp add: config_filename_def py_endswith_def)
  show ?thesis
    using C5_save_then_load
        [of empty_world "''my''" sample_loads sample_dumps default_config "PDict []"] h1 h2 h3
    by (simp add: f)
qed

text \<open>
  C5 as stated fails where the file cannot be opened for writing:
  \<^verbatim>\<open>crypto_journey/crypto_config.json\<close> holds \<^verbatim>\<open>{}\<close> and is read-only; \<^verbatim>\<open>save_config\<close>
  prints its error and writes nothing, and \<^verbatim>\<open>load_config\<close> then replaces the default
  configuration by the empty object.
\<close>

theorem C5_counterexample:
  "sample_loads (sample_dumps default_config) = Inr default_config \<and>
   do_save_config sample_dumps '''' default_config
     \<lparr>files = [''crypto_journey/crypto_config.json'' \<mapsto> ''{}''],
      write_denied = (\<lambda>p. True), read_error = (\<lambda>p. None)\<rparr> =
     ([Err_save],
      \<lparr>files = [''crypto_journey/crypto_config.json'' \<mapsto> ''{}''],
       write_denied = (\<lambda>p. True), read_error = (\<lambda>p. None)\<rparr>) \<and>
   do_load_config sample_loads '''' default_config
     \<lparr>files = [''crypto_journey/crypto_config.json'' \<mapsto> ''{}''],
      write_denied = (\<lambda>p. True), read_error = (\<lambda>p. None)\<rparr> =
     ([Ok_loaded ''crypto_config.json''], PDict []) \<and>
   PDict [] \<noteq> default_config"
  by (simp add: do_save_config_def do_load_config_def load_try_def default_path
      sample_loads_def sample_dumps_def default_config_def config_filename_def)

text \<open>
  C6, as amended. Whatever exception the \<^verbatim>\<open>try\<close> body of \<^verbatim>\<open>load_config\<close> raises, the handler
  returns, prints an error and keeps the configuration. The line is the file-not-found
  error when \<^verbatim>\<open>open\<close> raises \<^verbatim>\<open>FileNotFoundError\<close>, as it does for a path with no file that it
  does not refuse otherwise; the JSON-format error when \<^verbatim>\<open>json.load\<close> raises
  \<^verbatim>\<open>JSONDecodeError\<close> on the text of the file; and the generic loading error for every other
  exception.
\<close>

theorem C6_load_failure_keeps_config:
  "(\<forall>e. load_try loads arg w = Inl e \<longrightarrow>
      do_load_config loads arg config w =
        ([if e = FileNotFoundError then Err_file_not_found (config_filename arg)
          else if e = JSONDecodeError then Err_invalid_json (config_filename arg)
          else Err_load e], config) \<and>
      error_shown (fst (do_load_config loads arg config w))) \<and>
   (read_error w (config_path arg) = None \<longrightarrow> files w (config_path arg) = None \<longrightarrow>
      load_try loads arg w = Inl FileNotFoundError) \<and>
   (\<forall>text. read_error w (config_path arg) = None \<longrightarrow> files w (config_path arg) = Some text \<longrightarrow>
      load_try loads arg w = loads text)"
  by (simp add: do_load_config_def load_try_def error_shown_def)

theorem C6_witness:
  "load_try sample_loads ''none'' empty_world = Inl FileNotFoundError \<and>
   do_load_config sample_loads ''none'' default_config empty_world =
     ([Err_file_not_found ''none.json''], default_config) \<and>
   load_try sample_loads ''bad.json''
     (empty_world\<lparr>files := [''crypto_journey/bad.json'' \<mapsto> ''{'']\<rparr>) = Inl JSONDecodeError \<and>
   do_load_config sample_loads ''bad.json'' default_config
     (empty_world\<lparr>files := [''crypto_journey/bad.json'' \<mapsto> ''{'']\<rparr>) =
     ([Err_invalid_json ''bad.json''], default_config)"
proof -
  have p: "config_path ''bad.json'' = ''crypto_journey/bad.json''"
    by (simp add: config_path_def config_filename_def os_path_join_def py_endswith_def)
  have f1: "config_filename ''none'' = ''none.json''"
    by (simp add: config_filename_def py_endswith_def)
  have f2: "config_filename ''bad.json'' = ''bad.json''"
    by (simp add: config_filename_def py_endswith_def)
  have l1: "load_try sample_loads ''none'' empty_world = Inl FileNotFoundError"
    by (simp add: load_try_def empty_world_def)
  have l2: "load_try sample_loads ''bad.json''
     (empty_world\<lparr>files := [''crypto_journey/bad.json'' \<mapsto> ''{'']\<rparr>) = Inl JSONDecodeError"
    by (simp add: load_try_def empty_world_def p sample_loads_def)
  show ?thesis
    using C6_load_failure_keeps_config [of sample_loads "''none''" empty_world default_config]
      C6_load_failure_keeps_config
        [of sample_loads "''bad.json''"
          "empty_world\<lparr>files := [''crypto_journey/bad.json'' \<mapsto> ''{'']\<rparr>" default_config]
      l1 l2
    by (simp add: f1 f2)
qed

text \<open>
  C6 as stated fails in both halves. A file whose bytes are not UTF-8 is malformed JSON,
  but reading it raises \<^verbatim>\<open>UnicodeDecodeError\<close>, which is not a \<^verbatim>\<open>JSONDecodeError\<close>: the line
  printed is the generic loading error. A path with no file whose name is too long makes
  \<^verbatim>\<open>open\<close> raise \<^verbatim>\<open>OSError\<close>, not \<^verbatim>\<open>FileNotFoundError\<close>: the generic line again. The
  configuration is kept in both.
\<close>

theorem C6_counterexample:
  "do_load_config sample_loads ''bad.json'' default_config
     \<lparr>files = [''crypto_journey/bad.json'' \<mapsto> ''{''], write_denied = (\<lambda>p. False),
      read_error = [''crypto_journey/bad.json'' \<mapsto> UnicodeDecodeError]\<rparr> =
     ([Err_load UnicodeDecodeError], default_config) \<and>
   Err_load UnicodeDecodeError \<noteq> Err_invalid_json ''bad.json'' \<and>
   files \<lparr>files = (\<lambda>p. None), write_denied = (\<lambda>p. False),
          read_error = [''crypto_journey/long.json'' \<mapsto> OSError]\<rparr>
     (config_path ''long'') = None \<and>
   do_load_config sample_loads ''long'' default_config
     \<lparr>files = (\<lambda>p. None), write_denied = (\<lambda>p. False),
      read_error = [''crypto_journey/long.json'' \<mapsto> OSError]\<rparr> =
     ([Err_load OSError], default_config) \<and>
   Err_load OSError \<noteq> Err_file_not_found ''long.json''"
  by (simp add: do_load_config_def load_try_def config_path_def config_filename_def
      os_path_join_def py_endswith_def)

section \<open>The claims about the strategy\<close>

lemma submitted_simps:
  "submitted [] = False"
  "submitted (Submit_order ord # evs) = True"
  "submitted (Sell_all # evs) = submitted evs"
  "submitted (Create_order ord # evs) = submitted evs"
  "submitted (Print_order ord # evs) = submitted evs"
  "submitted (Print_warning a b # evs) = submitted evs"
  by (simp_all add: submitted_def)

lemma created_simps:
  "created [] = False"
  "created (Create_order ord # evs) = True"
  "created (Sell_all # evs) = created evs"
  "created (Submit_order ord # evs) = created evs"
  "created (Print_order ord # evs) = created evs"
  "created (Print_warning a b # evs) = created evs"
  by (simp_all add: created_def)

text \<open>
  The sizing and the affordability check of the run in \<^verbatim>\<open>__main__\<close>'s parameters
  (\<^verbatim>\<open>cash_at_risk = 0.25\<close>) with cash \<^verbatim>\<open>100.0\<close> and price \<^verbatim>\<open>50.0\<close>.
\<close>

lemma sizing_100:
  "position_sizing (tr\<lparr>cash_at_risk := Finite False (1 / 4)\<rparr>) (Finite False 100)
     (Some (Finite False 50)) =
   Inr ((Finite False 100, Some (Finite False 50), Finite False (1 / 2)), [])"
  by (simp add: position_sizing_def mul_100 div_25 del: fmul.simps)

lemma draws_100: "draws (Finite False 100) (Some (Finite False 50)) (Finite False (1 / 2))"
  by (simp add: draws_def mul_half py_gt_def fzero_def fval_def del: fmul.simps)

text \<open>
  C7. In an iteration whose price lookup returns \<^verbatim>\<open>None\<close>, the position size is zero, no
  order is created or submitted (the only effect is the printed warning), and the
  iteration returns normally with the strategy's state unchanged.
\<close>

theorem C7_missing_price_no_order:
  "position_sizing tr cash None =
     Inr ((cash, None, fzero), [Print_warning (coin tr) (quote tr)]) \<and>
   on_trading_iteration tr cash None choice = Inr (tr, [Print_warning (coin tr) (quote tr)]) \<and>
   \<not> created [Print_warning (coin tr) (quote tr)] \<and>
   \<not> submitted [Print_warning (coin tr) (quote tr)]"
  by (simp add: position_sizing_def on_trading_iteration_def draws_def submitted_simps
      created_simps)

theorem C7_witness:
  "on_trading_iteration (initialize (Finite False (1 / 4)) ''BTC'' ''USD'') (Finite False 100)
     None 1 =
   Inr (initialize (Finite False (1 / 4)) ''BTC'' ''USD'', [Print_warning ''BTC'' ''USD''])"
  using C7_missing_price_no_order
    [of "initialize (Finite False (1 / 4)) ''BTC'' ''USD''" "Finite False 100" 1]
  by (simp add: initialize_def)

text \<open>
  C8. In an iteration that draws a choice (the sizing returned and both guards hold): on
  buy (choice 1) the calls are \<^verbatim>\<open>sell_all\<close> if the remembered side is sell, then
  \<^verbatim>\<open>create_order\<close> and \<^verbatim>\<open>submit_order\<close> for the computed quantity, and the remembered side
  becomes buy; on sell (choice 2) the same with the sides exchanged; on hold (choice 0)
  nothing is called and the state is unchanged.
\<close>

theorem C8_liquidate_then_order:
  assumes "position_sizing tr cash price = Inr ((c, lp, q), out)"
    and "draws c lp q"
  shows "on_trading_iteration tr cash price 1 =
           Inr (tr\<lparr>last_trade := Some Buy\<rparr>,
                (if last_trade tr = Some Sell then [Sell_all] else []) @
                [Create_order (make_order tr q Buy), Print_order (make_order tr q Buy),
                 Submit_order (make_order tr q Buy)]) \<and>
         on_trading_iteration tr cash price 2 =
           Inr (tr\<lparr>last_trade := Some Sell\<rparr>,
                (if last_trade tr = Some Buy then [Sell_all] else []) @
                [Create_order (make_order tr q Sell), Print_order (make_order tr q Sell),
                 Submit_order (make_order tr q Sell)]) \<and>
         on_trading_iteration tr cash price 0 = Inr (tr, [])"
proof -
  have "out = []"
    using assms by (auto simp: position_sizing_def draws_def split: option.splits sum.splits)
  then show ?thesis
    using assms by (simp add: on_trading_iteration_def decide_def)
qed

theorem C8_witness:
  "position_sizing \<lparr>last_trade = Some Sell, cash_at_risk = Finite False (1 / 4),
        coin = ''BTC'', quote = ''USD''\<rparr> (Finite False 100) (Some (Finite False 50)) =
     Inr ((Finite False 100, Some (Finite False 50), Finite False (1 / 2)), []) \<and>
   draws (Finite False 100) (Some (Finite False 50)) (Finite False (1 / 2)) \<and>
   on_trading_iteration \<lparr>last_trade = Some Sell, cash_at_risk = Finite False (1 / 4),
        coin = ''BTC'', quote = ''USD''\<rparr> (Finite False 100) (Some (Finite False 50)) 1 =
     Inr (\<lparr>last_trade = Some Buy, cash_at_risk = Finite False (1 / 4),
          coin = ''BTC'', quote = ''USD''\<rparr>,
          [Sell_all,
           Create_order \<lparr>order_asset = ''BTC'', order_quantity = Finite False (1 / 2),
             order_side = Buy, order_type = ''market'', order_quote = ''USD''\<rparr>,
           Print_order \<lparr>order_asset = ''BTC'', order_quantity = Finite False (1 / 2),
             order_side = Buy, order_type = ''market'', order_quote = ''USD''\<rparr>,
           Submit_order \<lparr>order_asset = ''BTC'', order_quantity = Finite False (1 / 2),
             order_side = Buy, order_type = ''market'', order_quote = ''USD''\<rparr>]) \<and>
   on_trading_iteration \<lparr>last_trade = Some Sell, cash_at_risk = Finite False (1 / 4),
        coin = ''BTC'', quote = ''USD''\<rparr> (Finite False 100) (Some (Finite False 50)) 0 =
     Inr (\<lparr>last_trade = Some Sell, cash_at_risk = Finite False (1 / 4),
          coin = ''BTC'', quote = ''USD''\<rparr>, [])"
proof -
  have h1: "position_sizing \<lparr>last_trade = Some Sell, cash_at_risk = Finite False (1 / 4),
        coin = ''BTC'', quote = ''USD''\<rparr> (Finite False 100) (Some (Finite False 50)) =
     Inr ((Finite False 100, Some (Finite False 50), Finite False (1 / 2)), [])"
    using sizing_100 [of "\<lparr>last_trade = Some Sell, cash_at_risk = Finite False (1 / 4),
        coin = ''BTC'', quote = ''USD''\<rparr>"] by simp
  show ?thesis
    using C8_liquidate_then_order [OF h1 draws_100] h1 draws_100
    by (simp add: make_order_def)
qed

text \<open>
  C9, as amended. When the product and the quotient of the sizing are computed without
  rounding, an iteration submits an order only if \<^verbatim>\<open>cash * cash_at_risk < cash\<close>; in
  particular it submits none when \<^verbatim>\<open>cash_at_risk\<close> is 1.
\<close>

theorem C9_exact_sizing_needs_fraction:
  assumes "exact_sizing cash (cash_at_risk tr) p"
    and "on_trading_iteration tr cash (Some p) choice = Inr (tr', evs)"
    and "submitted evs"
  shows "py_lt (fmul cash (cash_at_risk tr)) cash \<and> cash_at_risk tr \<noteq> fone"
proof -
  obtain s c t r u x where f: "cash = Finite s c" "cash_at_risk tr = Finite t r" "p = Finite u x"
    using assms(1) by (cases cash; cases "cash_at_risk tr"; cases p) auto
  have x: "x \<noteq> 0"
    and e1: "fround (s \<noteq> t) (c * r) = Finite (s \<noteq> t) (c * r)"
    and e2: "fround ((s \<noteq> t) \<noteq> u) (c * r / x) = Finite ((s \<noteq> t) \<noteq> u) (c * r / x)"
    using assms(1) by (simp_all add: f)
  have ps: "position_sizing tr cash (Some p) =
      Inr ((cash, Some p, Finite ((s \<noteq> t) \<noteq> u) (c * r / x)), [])"
    using x e1 e2 by (simp add: position_sizing_def fdiv_def f)
  have qp: "fmul (Finite ((s \<noteq> t) \<noteq> u) (c * r / x)) p = Finite (s \<noteq> t) (c * r)"
  proof -
    have b: "(((s \<noteq> t) \<noteq> u) \<noteq> u) = (s \<noteq> t)" by auto
    have "fmul (Finite ((s \<noteq> t) \<noteq> u) (c * r / x)) p =
        fround (((s \<noteq> t) \<noteq> u) \<noteq> u) (c * r)"
      using x by (simp add: f)
    then show ?thesis unfolding b using e1 by simp
  qed
  have d: "draws cash (Some p) (Finite ((s \<noteq> t) \<noteq> u) (c * r / x))"
  proof (rule ccontr)
    assume "\<not> ?thesis"
    then have "evs = []" using assms(2) ps by (simp add: on_trading_iteration_def)
    then show False using assms(3) by (simp add: submitted_simps)
  qed
  then have "py_gt cash (fmul (Finite ((s \<noteq> t) \<noteq> u) (c * r / x)) p)"
    unfolding draws_def by simp
  then have "py_gt cash (Finite (s \<noteq> t) (c * r))"
    unfolding qp .
  then have lt: "py_lt (fmul cash (cash_at_risk tr)) cash"
    using e1 by (simp add: py_gt_def f)
  have "cash_at_risk tr \<noteq> fone"
  proof
    assume "cash_at_risk tr = fone"
    then have "t = False" "r = 1" using f by (simp_all add: fone_def)
    then show False using lt e1 by (simp add: f)
  qed
  with lt show ?thesis by simp
qed

theorem C9_witness:
  "exact_sizing (Finite False 100) (Finite False (1 / 4)) (Finite False 50) \<and>
   on_trading_iteration (initialize (Finite False (1 / 4)) ''BTC'' ''USD'') (Finite False 100)
     (Some (Finite False 50)) 1 =
     Inr (\<lparr>last_trade = Some Buy, cash_at_risk = Finite False (1 / 4),
          coin = ''BTC'', quote = ''USD''\<rparr>,
          [Create_order \<lparr>order_asset = ''BTC'', order_quantity = Finite False (1 / 2),
             order_side = Buy, order_type = ''market'', order_quote = ''USD''\<rparr>,
           Print_order \<lparr>order_asset = ''BTC'', order_quantity = Finite False (1 / 2),
             order_side = Buy, order_type = ''market'', order_quote = ''USD''\<rparr>,
           Submit_order \<lparr>order_asset = ''BTC'', order_quantity = Finite False (1 / 2),
             order_side = Buy, order_type = ''market'', order_quote = ''USD''\<rparr>]) \<and>
   py_lt (fmul (Finite False 100) (Finite False (1 / 4))) (Finite False 100)"
proof -
  let ?tr = "initialize (Finite False (1 / 4)) ''BTC'' ''USD''"
  let ?o = "\<lparr>order_asset = ''BTC'', order_quantity = Finite False (1 / 2),
             order_side = Buy, order_type = ''market'', order_quote = ''USD''\<rparr>"
  have h1: "exact_sizing (Finite False 100) (cash_at_risk ?tr) (Finite False 50)"
    using round_25 round_half by (simp add: initialize_def fround_def pow2_def)
  have h2: "on_trading_iteration ?tr (Finite False 100) (Some (Finite False 50)) 1 =
      Inr (\<lparr>last_trade = Some Buy, cash_at_risk = Finite False (1 / 4),
          coin = ''BTC'', quote = ''USD''\<rparr>,
          [Create_order ?o, Print_order ?o, Submit_order ?o])"
    using sizing_100 [of ?tr] draws_100
    by (simp add: on_trading_iteration_def decide_def make_order_def initialize_def)
  have h3: "submitted [Create_order ?o, Print_order ?o, Submit_order ?o]"
    by (simp add: submitted_simps)
  show ?thesis
    using C9_exact_sizing_needs_fraction [OF h1 h2 h3] h1 h2
    by (simp add: initialize_def)
qed

text \<open>
  C9 as stated fails: with cash \<^verbatim>\<open>1.0\<close>, price \<^verbatim>\<open>49.0\<close> and \<^verbatim>\<open>cash_at_risk = 1.0\<close> the
  quantity is \<^verbatim>\<open>1.0 / 49.0\<close>, whose product with the price rounds to
  \<^verbatim>\<open>0.9999999999999999 < 1.0\<close>; the check passes and a buy draw submits an order, although
  \<^verbatim>\<open>cash * cash_at_risk < cash\<close> is false.
\<close>

theorem C9_counterexample:
  "py_gt (Finite False 1) fzero \<and> py_gt (Finite False 49) fzero \<and>
   on_trading_iteration (initialize (Finite False 1) ''BTC'' ''USD'')
     (Finite False 1) (Some (Finite False 49)) 1 =
   Inr (\<lparr>last_trade = Some Buy, cash_at_risk = Finite False 1, coin = ''BTC'', quote = ''USD''\<rparr>,
        [Create_order \<lparr>order_asset = ''BTC'',
            order_quantity = Finite False (5882252574524729 / 288230376151711744),
            order_side = Buy, order_type = ''market'', order_quote = ''USD''\<rparr>,
         Print_order \<lparr>order_asset = ''BTC'',
            order_quantity = Finite False (5882252574524729 / 288230376151711744),
            order_side = Buy, order_type = ''market'', order_quote = ''USD''\<rparr>,
         Submit_order \<lparr>order_asset = ''BTC'',
            order_quantity = Finite False (5882252574524729 / 288230376151711744),
            order_side = Buy, order_type = ''market'', order_quote = ''USD''\<rparr>]) \<and>
   \<not> py_lt (fmul (Finite False 1) (Finite False 1)) (Finite False 1)"
  by (simp add: mul_one div_49 mul_49 on_trading_iteration_def position_sizing_def draws_def
      decide_def make_order_def initialize_def py_gt_def fzero_def fval_def del: fmul.simps)

text \<open>
  C10. \<^verbatim>\<open>position_sizing\<close> guards the division only against a missing price: a price of
  \<^verbatim>\<open>0.0\<close> or \<^verbatim>\<open>-0.0\<close> raises \<^verbatim>\<open>ZeroDivisionError\<close> out of the function, and every other price
  that is not \<^verbatim>\<open>None\<close> returns the quantity \<^verbatim>\<open>cash * cash_at_risk / last_price\<close>.
\<close>

theorem C10_zero_price_raises:
  "position_sizing tr cash (Some p) =
     (if is_zero p then Inl ZeroDivisionError
      else Inr ((cash, Some p, ieee_div (fmul cash (cash_at_risk tr)) p), [])) \<and>
   fdiv (fmul cash (cash_at_risk tr)) p =
     (if is_zero p then Inl ZeroDivisionError
      else Inr (ieee_div (fmul cash (cash_at_risk tr)) p)) \<and>
   (\<exists>r. position_sizing tr cash None = Inr r)"
  by (simp add: position_sizing_def fdiv_def)

theorem C10_witness:
  "position_sizing (initialize (Finite False (1 / 4)) ''BTC'' ''USD'') (Finite False 100)
     (Some (Finite False 0)) = Inl ZeroDivisionError \<and>
   position_sizing (initialize (Finite False (1 / 4)) ''BTC'' ''USD'') (Finite False 100)
     (Some (Finite True 0)) = Inl ZeroDivisionError \<and>
   on_trading_iteration (initialize (Finite False (1 / 4)) ''BTC'' ''USD'') (Finite False 100)
     (Some (Finite False 0)) 1 = Inl ZeroDivisionError \<and>
   position_sizing (initialize (Finite False (1 / 4)) ''BTC'' ''USD'') (Finite False 100)
     (Some (Finite False 50)) =
     Inr ((Finite False 100, Some (Finite False 50), Finite False (1 / 2)), [])"
proof -
  let ?tr = "initialize (Finite False (1 / 4)) ''BTC'' ''USD''"
  have d: "ieee_div (fmul (Finite False 100) (Finite False (1 / 4))) (Finite False 50) =
      Finite False (1 / 2)"
    using div_25 by (simp add: mul_100 fdiv_def del: fmul.simps ieee_div.simps)
  show ?thesis
    using C10_zero_price_raises [of ?tr "Finite False 100" "Finite False 0"]
      C10_zero_price_raises [of ?tr "Finite False 100" "Finite True 0"]
      C10_zero_price_raises [of ?tr "Finite False 100" "Finite False 50"]
    by (simp add: d initialize_def on_trading_iteration_def del: fmul.simps ieee_div.simps)
qed

end
